theory Spec2Isabelle
  imports Complex_Main "HOL-Library.AList"
begin

section \<open>ECMAScript strings and Maps\<close>

text \<open>
  A string of the program is a sequence of UTF-16 code units; a code unit is modelled by
  its number. \<open>js\<close> turns an ASCII literal into such a string. The arrow of a connection
  line is the single code unit U+2192, the capital omega is U+03A9.
\<close>

type_synonym jsstring = "nat list"

definition js :: "string \<Rightarrow> jsstring" where
  "js s = map of_char s"

definition arrow :: nat where
  "arrow = 8594"

definition omega :: nat where
  "omega = 937"

text \<open>
  \<open>String.prototype.toLowerCase\<close>. On a string of Basic Latin code units, arrows and
  capital omegas (what the labels of this program are written in) it maps code unit by
  code unit: the letters A to Z and the omega go to their small letters, the rest stays.
  On any other string the result is what the parameter \<open>lower\<close> says (the Unicode case
  mapping of the host), so that a theorem holds whatever \<open>toLowerCase\<close> returns there.
\<close>

definition toLowerCase_unit :: "nat \<Rightarrow> nat" where
  "toLowerCase_unit c =
     (if 65 \<le> c \<and> c \<le> 90 then c + 32 else if c = 937 then 969 else c)"

definition toLowerCase :: "(jsstring \<Rightarrow> jsstring) \<Rightarrow> jsstring \<Rightarrow> jsstring" where
  "toLowerCase lower s =
     (if list_all (\<lambda>c. c < 128 \<or> c = 8594 \<or> c = 937) s then map toLowerCase_unit s
      else lower s)"

fun startsWith :: "jsstring \<Rightarrow> jsstring \<Rightarrow> bool" where
  "startsWith s [] = True"
| "startsWith [] (p # ps) = False"
| "startsWith (c # cs) (p # ps) = (c = p \<and> startsWith cs ps)"

text \<open>\<open>s.includes(t)\<close>: \<open>t\<close> occurs in \<open>s\<close> as a contiguous substring.\<close>

fun includes_str :: "jsstring \<Rightarrow> jsstring \<Rightarrow> bool" where
  "includes_str [] t = (t = [])"
| "includes_str (c # cs) t = (startsWith (c # cs) t \<or> includes_str cs t)"

text \<open>The class \<open>\s\<close> of a regular expression, which is also what \<open>trim\<close> strips:
  WhiteSpace and LineTerminator of ECMAScript.\<close>

definition isWhiteSpace :: "nat \<Rightarrow> bool" where
  "isWhiteSpace c =
     (c = 9 \<or> c = 10 \<or> c = 11 \<or> c = 12 \<or> c = 13 \<or> c = 32 \<or> c = 160 \<or> c = 5760
      \<or> (8192 \<le> c \<and> c \<le> 8202) \<or> c = 8232 \<or> c = 8233 \<or> c = 8239 \<or> c = 8287
      \<or> c = 12288 \<or> c = 65279)"

text \<open>The class \<open>\d\<close>: the ten ASCII digits.\<close>

definition isDigit :: "nat \<Rightarrow> bool" where
  "isDigit c = (48 \<le> c \<and> c \<le> 57)"

definition trim :: "jsstring \<Rightarrow> jsstring" where
  "trim s = rev (dropWhile isWhiteSpace (rev (dropWhile isWhiteSpace s)))"

text \<open>
  \<open>s.split(sep)\<close> for a separator of one code unit (the program splits on the arrow
  and on the space): the parts between the occurrences, never the empty list.
\<close>

fun split :: "jsstring \<Rightarrow> nat \<Rightarrow> jsstring list" where
  "split [] sep = [[]]"
| "split (c # cs) sep =
     (if c = sep then [] # split cs sep
      else (case split cs sep of [] \<Rightarrow> [[c]] | p # ps \<Rightarrow> (c # p) # ps))"

text \<open>
  Canonicalisation of a code unit under the flag \<open>i\<close> (without \<open>u\<close>): ASCII letters go
  to upper case. A code unit outside ASCII never canonicalises to an ASCII one, so for
  the ASCII patterns of this program this decides a case-insensitive match exactly.
\<close>

definition canonicalize :: "nat \<Rightarrow> nat" where
  "canonicalize c = (if 97 \<le> c \<and> c \<le> 122 then c - 32 else c)"

text \<open>\<open>/L\d+/i.test(s)\<close> for a letter \<open>L\<close>: somewhere the letter, in either case,
  is followed by a digit.\<close>

fun matchLetterDigits :: "nat \<Rightarrow> jsstring \<Rightarrow> bool" where
  "matchLetterDigits l [] = False"
| "matchLetterDigits l [c] = False"
| "matchLetterDigits l (c # d # cs) =
     ((canonicalize c = canonicalize l \<and> isDigit d) \<or> matchLetterDigits l (d # cs))"

text \<open>
  A \<open>Map\<close> keeps its entries in insertion order; \<open>set\<close> on a key that is present
  replaces the value in place, on a new key appends the entry. That is
  \<^const>\<open>AList.update\<close> on the list of entries.
\<close>

type_synonym ('k, 'v) Map = "('k \<times> 'v) list"

definition Map_set :: "'k \<Rightarrow> 'v \<Rightarrow> ('k, 'v) Map \<Rightarrow> ('k, 'v) Map" where
  "Map_set k v m = AList.update k v m"

definition Map_get :: "('k, 'v) Map \<Rightarrow> 'k \<Rightarrow> 'v option" where
  "Map_get m k = map_of m k"

text \<open>A run of \<open>set\<close> calls on a Map, in program order.\<close>

definition Map_sets :: "('k, 'v) Map \<Rightarrow> ('k \<times> 'v) list \<Rightarrow> ('k, 'v) Map" where
  "Map_sets m kvs = foldl (\<lambda>acc kv. Map_set (fst kv) (snd kv) acc) m kvs"

section \<open>Numbers\<close>

text \<open>
  A \<open>number\<close> of the program is a value of the binary64 format: NaN, one of the two
  infinities, or a finite value, which is modelled by the real it denotes. The two zeros
  are one value here: the program never divides by a zero, and both are written \<open>0\<close>.
\<close>

datatype number = Finite real | PosInf | NegInf | NaN

text \<open>Rounding to the nearest integer, ties to the even one.\<close>

definition roundEven :: "real \<Rightarrow> int" where
  "roundEven y =
     (let f = \<lfloor>y\<rfloor> in
      if y - of_int f < 1 / 2 then f
      else if y - of_int f > 1 / 2 then f + 1
      else if even f then f else f + 1)"

text \<open>
  The exponent of the binade of a real; below \<open>2^-1022\<close> the numbers are subnormal and
  share the least exponent.
\<close>

definition exponent :: "real \<Rightarrow> int" where
  "exponent x = max \<lfloor>log 2 \<bar>x\<bar>\<rfloor> (- 1022)"

text \<open>
  Rounding to nearest, ties to even, with 53 significant bits: the real is divided by the
  unit in the last place of its binade, rounded to an integer and scaled back. The
  exponent is not bounded above here; \<open>round64\<close> does that.
\<close>

definition binary64 :: "real \<Rightarrow> real" where
  "binary64 x =
     (if x = 0 then 0
      else (let ulp = 2 powr (of_int (exponent x - 52))
            in of_int (roundEven (x / ulp)) * ulp))"

text \<open>The least power of two beyond the finite numbers.\<close>

definition huge :: real where
  "huge = 2 ^ 1024"

text \<open>
  The number that an exact result is rounded to: an infinity when the rounded magnitude
  reaches \<open>huge\<close>. A decimal literal such as \<open>0.2\<close> is \<open>round64 0.2\<close>; integer literals
  are written \<open>Finite 200\<close>.
\<close>

definition round64 :: "real \<Rightarrow> number" where
  "round64 x =
     (let v = binary64 x in
      if huge \<le> v then PosInf else if v \<le> - huge then NegInf else Finite v)"

text \<open>
  The values of the format: a finite one is a real below \<open>huge\<close> in magnitude that
  rounding leaves as it is.
\<close>

fun isNumber :: "number \<Rightarrow> bool" where
  "isNumber (Finite v) = (binary64 v = v \<and> \<bar>v\<bar> < huge)"
| "isNumber PosInf = True"
| "isNumber NegInf = True"
| "isNumber NaN = True"

fun negate :: "number \<Rightarrow> number" where
  "negate (Finite a) = Finite (- a)"
| "negate PosInf = NegInf"
| "negate NegInf = PosInf"
| "negate NaN = NaN"

text \<open>The operators \<open>+\<close>, \<open>-\<close>, \<open>*\<close> and \<open>/\<close> on numbers.\<close>

fun num_add :: "number \<Rightarrow> number \<Rightarrow> number" where
  "num_add (Finite a) (Finite b) = round64 (a + b)"
| "num_add NaN y = NaN"
| "num_add x NaN = NaN"
| "num_add PosInf NegInf = NaN"
| "num_add NegInf PosInf = NaN"
| "num_add PosInf y = PosInf"
| "num_add x PosInf = PosInf"
| "num_add NegInf y = NegInf"
| "num_add x NegInf = NegInf"

fun num_sub :: "number \<Rightarrow> number \<Rightarrow> number" where
  "num_sub (Finite a) (Finite b) = round64 (a - b)"
| "num_sub NaN y = NaN"
| "num_sub x NaN = NaN"
| "num_sub PosInf PosInf = NaN"
| "num_sub NegInf NegInf = NaN"
| "num_sub PosInf y = PosInf"
| "num_sub x PosInf = NegInf"
| "num_sub NegInf y = NegInf"
| "num_sub x NegInf = PosInf"

fun num_mul :: "number \<Rightarrow> number \<Rightarrow> number" where
  "num_mul (Finite a) (Finite b) = round64 (a * b)"
| "num_mul NaN y = NaN"
| "num_mul x NaN = NaN"
| "num_mul (Finite a) y = (if a = 0 then NaN else if 0 < a then y else negate y)"
| "num_mul x (Finite b) = (if b = 0 then NaN else if 0 < b then x else negate x)"
| "num_mul PosInf y = y"
| "num_mul NegInf y = negate y"

text \<open>A quotient by zero has the sign of the dividend, as for the positive zero.\<close>

fun num_div :: "number \<Rightarrow> number \<Rightarrow> number" where
  "num_div (Finite a) (Finite b) =
     (if b = 0 then (if a = 0 then NaN else if 0 < a then PosInf else NegInf)
      else round64 (a / b))"
| "num_div NaN y = NaN"
| "num_div x NaN = NaN"
| "num_div (Finite a) y = Finite 0"
| "num_div x (Finite b) = (if 0 \<le> b then x else negate x)"
| "num_div x y = NaN"

fun Math_sqrt :: "number \<Rightarrow> number" where
  "Math_sqrt (Finite a) = (if a < 0 then NaN else round64 (sqrt a))"
| "Math_sqrt PosInf = PosInf"
| "Math_sqrt NegInf = NaN"
| "Math_sqrt NaN = NaN"

fun Math_abs :: "number \<Rightarrow> number" where
  "Math_abs (Finite a) = Finite \<bar>a\<bar>"
| "Math_abs PosInf = PosInf"
| "Math_abs NegInf = PosInf"
| "Math_abs NaN = NaN"

text \<open>The comparisons \<open><\<close> and \<open><=\<close>: false when an operand is NaN. \<open>a > b\<close> is
  \<open>num_less b a\<close>.\<close>

fun num_less :: "number \<Rightarrow> number \<Rightarrow> bool" where
  "num_less (Finite a) (Finite b) = (a < b)"
| "num_less NaN y = False"
| "num_less x NaN = False"
| "num_less x PosInf = (x \<noteq> PosInf)"
| "num_less PosInf y = False"
| "num_less NegInf y = (y \<noteq> NegInf)"
| "num_less x NegInf = False"

fun num_le :: "number \<Rightarrow> number \<Rightarrow> bool" where
  "num_le (Finite a) (Finite b) = (a \<le> b)"
| "num_le NaN y = False"
| "num_le x NaN = False"
| "num_le x PosInf = True"
| "num_le NegInf y = True"
| "num_le PosInf y = False"
| "num_le x NegInf = False"

text \<open>\<open>Math.max\<close> and \<open>Math.min\<close> of two numbers: NaN when an argument is NaN.\<close>

definition Math_max :: "number \<Rightarrow> number \<Rightarrow> number" where
  "Math_max a b = (if a = NaN \<or> b = NaN then NaN else if num_less a b then b else a)"

definition Math_min :: "number \<Rightarrow> number \<Rightarrow> number" where
  "Math_min a b = (if a = NaN \<or> b = NaN then NaN else if num_less b a then b else a)"

text \<open>A position \<open>{x, y}\<close>.\<close>

type_synonym Point = "number \<times> number"

section \<open>Pin table\<close>

definition getComponentPinPositions ::
  "(jsstring \<Rightarrow> jsstring) \<Rightarrow> jsstring \<Rightarrow> number \<Rightarrow> number \<Rightarrow> (jsstring, Point) Map" where
  "getComponentPinPositions lower componentName width height =
     (let name = toLowerCase lower componentName in
      if includes_str name (js ''arduino'') then
        Map_sets []
          [(js ''VIN'', (Finite 0, num_mul height (round64 0.2))),
           (js ''GND'', (Finite 0, num_mul height (round64 0.4))),
           (js ''5V'', (Finite 0, num_mul height (round64 0.3))),
           (js ''3.3V'', (Finite 0, num_mul height (round64 0.35))),
           (js ''D13'', (width, num_mul height (round64 0.3))),
           (js ''D12'', (width, num_mul height (round64 0.4))),
           (js ''D11'', (width, num_mul height (round64 0.5))),
           (js ''D10'', (width, num_mul height (round64 0.6))),
           (js ''A0'', (width, num_mul height (round64 0.7))),
           (js ''A1'', (width, num_mul height (round64 0.8)))]
      else if includes_str name (js ''led'') then
        Map_sets []
          [(js ''Anode'', (num_div width (Finite 2), Finite 0)),
           (js ''+'', (num_div width (Finite 2), Finite 0)),
           (js ''Cathode'', (num_div width (Finite 2), height)),
           (js ''-'', (num_div width (Finite 2), height))]
      else if includes_str name (js ''resistor'') then
        Map_sets []
          [(js ''A'', (Finite 0, num_div height (Finite 2))),
           (js ''B'', (width, num_div height (Finite 2))),
           (js ''1'', (Finite 0, num_div height (Finite 2))),
           (js ''2'', (width, num_div height (Finite 2)))]
      else if includes_str name (js ''battery'') then
        Map_sets []
          [(js ''+'', (num_div width (Finite 2), Finite 0)),
           (js ''positive'', (num_div width (Finite 2), Finite 0)),
           (js ''-'', (num_div width (Finite 2), height)),
           (js ''negative'', (num_div width (Finite 2), height))]
      else if includes_str name (js ''hc-sr04'') \<or> includes_str name (js ''ultrasonic'') then
        Map_sets []
          [(js ''VCC'', (Finite 0, num_mul height (round64 0.2))),
           (js ''TRIG'', (Finite 0, num_mul height (round64 0.4))),
           (js ''ECHO'', (Finite 0, num_mul height (round64 0.6))),
           (js ''GND'', (Finite 0, num_mul height (round64 0.8)))]
      else if includes_str name (js ''switch'') \<or> includes_str name (js ''button'') then
        Map_sets []
          [(js ''1'', (Finite 0, num_div height (Finite 2))),
           (js ''2'', (width, num_div height (Finite 2))),
           (js ''A'', (Finite 0, num_div height (Finite 2))),
           (js ''B'', (width, num_div height (Finite 2)))]
      else
        Map_sets []
          [(js ''TOP'', (num_div width (Finite 2), Finite 0)),
           (js ''BOTTOM'', (num_div width (Finite 2), height)),
           (js ''LEFT'', (Finite 0, num_div height (Finite 2))),
           (js ''RIGHT'', (width, num_div height (Finite 2)))])"

section \<open>Wire colour\<close>

definition getWireColor ::
  "(jsstring \<Rightarrow> jsstring) \<Rightarrow> jsstring \<Rightarrow> jsstring" where
  "getWireColor lower connection =
     (let conn = toLowerCase lower connection in
      if includes_str conn (js ''vin'') \<or> includes_str conn (js ''5v'') \<or> includes_str conn (js ''3.3v'')
         \<or> includes_str conn (js ''vcc'') \<or> includes_str conn (js ''power'') \<or> includes_str conn (js ''+'')
      then js ''#FF0000''
      else if includes_str conn (js ''gnd'') \<or> includes_str conn (js ''ground'')
         \<or> includes_str conn (js ''-'')
      then js ''#000000''
      else if includes_str conn (js ''signal'') \<or> includes_str conn (js ''trig'')
         \<or> includes_str conn (js ''echo'')
      then js ''#FFFF00''
      else if matchLetterDigits 100 conn then js ''#00FF00''
      else if matchLetterDigits 97 conn then js ''#0088FF''
      else js ''#888888'')"

section \<open>Artwork: intrinsic size and normalisation\<close>

record ComponentSVGData =
  c_name :: jsstring
  c_svgContent :: jsstring
  c_width :: number
  c_height :: number
  c_pins :: "(jsstring, Point) Map"

definition isQuote :: "nat \<Rightarrow> bool" where
  "isQuote c = (c = 34 \<or> c = 39)"

text \<open>The capture group of \<open>/viewBox=["']([^"']+)["']/\<close> at the start of \<open>s\<close>.\<close>

definition viewBoxAt :: "jsstring \<Rightarrow> jsstring option" where
  "viewBoxAt s =
     (if startsWith s (js ''viewBox='') then
        (case drop 8 s of
           [] \<Rightarrow> None
         | q # r \<Rightarrow>
             if isQuote q \<and> takeWhile (\<lambda>c. \<not> isQuote c) r \<noteq> []
                \<and> dropWhile (\<lambda>c. \<not> isQuote c) r \<noteq> []
             then Some (takeWhile (\<lambda>c. \<not> isQuote c) r) else None)
      else None)"

text \<open>\<open>svgContent.match(/viewBox=["']([^"']+)["']/)\<close>: the group of the leftmost match.\<close>

fun viewBoxMatch :: "jsstring \<Rightarrow> jsstring option" where
  "viewBoxMatch [] = None"
| "viewBoxMatch (c # cs) =
     (case viewBoxAt (c # cs) of Some g \<Rightarrow> Some g | None \<Rightarrow> viewBoxMatch cs)"

text \<open>The group of \<open>/width=["'](\d+)/\<close> (or \<open>height\<close>) at the start of \<open>s\<close>;
  \<open>key\<close> is the attribute name with its equals sign.\<close>

definition attrAt :: "jsstring \<Rightarrow> jsstring \<Rightarrow> jsstring option" where
  "attrAt key s =
     (if startsWith s key then
        (case drop (length key) s of
           [] \<Rightarrow> None
         | q # r \<Rightarrow>
             if isQuote q \<and> takeWhile isDigit r \<noteq> [] then Some (takeWhile isDigit r)
             else None)
      else None)"

fun attrMatch :: "jsstring \<Rightarrow> jsstring \<Rightarrow> jsstring option" where
  "attrMatch key [] = None"
| "attrMatch key (c # cs) =
     (case attrAt key (c # cs) of Some g \<Rightarrow> Some g | None \<Rightarrow> attrMatch key cs)"

text \<open>\<open>s.split(/\s+/)\<close>; the flag says that the code unit before was white space.\<close>

fun splitWs :: "bool \<Rightarrow> jsstring \<Rightarrow> jsstring list" where
  "splitWs b [] = [[]]"
| "splitWs b (c # cs) =
     (if isWhiteSpace c then (if b then splitWs True cs else [] # splitWs True cs)
      else (case splitWs False cs of [] \<Rightarrow> [[c]] | p # ps \<Rightarrow> (c # p) # ps))"

text \<open>Element access \<open>a[i]\<close>: \<open>None\<close> is \<open>undefined\<close>.\<close>

fun at_index :: "'a list \<Rightarrow> nat \<Rightarrow> 'a option" where
  "at_index [] i = None"
| "at_index (a # as) i = (if i = 0 then Some a else at_index as (i - 1))"

fun decimalValue :: "jsstring \<Rightarrow> nat \<Rightarrow> nat" where
  "decimalValue [] acc = acc"
| "decimalValue (c # cs) acc = decimalValue cs (10 * acc + (c - 48))"

text \<open>
  \<open>parseFloat\<close>. On a string of decimal digits (all that the width and height
  attributes can capture) it is the number nearest to the one they denote, \<open>Infinity\<close>
  when that is beyond the range; on any other string the result is what the parameter
  \<open>other\<close> says, so that a theorem holds whatever \<open>parseFloat\<close> returns there.
\<close>

definition parseFloat :: "(jsstring \<Rightarrow> number) \<Rightarrow> jsstring \<Rightarrow> number" where
  "parseFloat other s =
     (if s \<noteq> [] \<and> list_all isDigit s then round64 (real (decimalValue s 0)) else other s)"

text \<open>\<open>v || 150\<close> on a number: NaN and 0 are falsy.\<close>

definition orDefault :: "number \<Rightarrow> number" where
  "orDefault v = (if v = NaN \<or> v = Finite 0 then Finite 150 else v)"

text \<open>
  The first part of \<open>parseSVG\<close>: the intrinsic width and height. The pattern
  \<open>[, , , w, h]\<close> binds \<open>w\<close> to element 3 and \<open>h\<close> to element 4 of the split
  \<open>viewBox\<close>; a missing element is \<open>undefined\<close>, and \<open>parseFloat(undefined)\<close> is NaN.
\<close>

definition svgDimensions ::
  "(jsstring \<Rightarrow> number) \<Rightarrow> jsstring \<Rightarrow> number \<times> number" where
  "svgDimensions other svgContent =
     (case viewBoxMatch svgContent of
        Some vb \<Rightarrow>
          (let parts = splitWs False vb in
           (orDefault (case at_index parts 3 of None \<Rightarrow> NaN | Some w \<Rightarrow> parseFloat other w),
            orDefault (case at_index parts 4 of None \<Rightarrow> NaN | Some h \<Rightarrow> parseFloat other h)))
      | None \<Rightarrow>
          (case (attrMatch (js ''width='') svgContent, attrMatch (js ''height='') svgContent) of
             (Some w, Some h) \<Rightarrow> (orDefault (parseFloat other w), orDefault (parseFloat other h))
           | _ \<Rightarrow> (Finite 150, Finite 150)))"

definition MAX_WIDTH :: number where
  "MAX_WIDTH = Finite 200"

definition MAX_HEIGHT :: number where
  "MAX_HEIGHT = Finite 200"

definition parseSVG ::
  "(jsstring \<Rightarrow> jsstring) \<Rightarrow> (jsstring \<Rightarrow> number) \<Rightarrow> jsstring \<Rightarrow> jsstring \<Rightarrow> ComponentSVGData" where
  "parseSVG lower other componentName svgContent =
     (let (width, height) = svgDimensions other svgContent;
          pins = getComponentPinPositions lower componentName width height
      in if num_less MAX_WIDTH width \<or> num_less MAX_HEIGHT height then
           (let scaleX = (if num_less MAX_WIDTH width then num_div MAX_WIDTH width
                          else Finite 1);
                scaleY = (if num_less MAX_HEIGHT height then num_div MAX_HEIGHT height
                          else Finite 1);
                scale = Math_min scaleX scaleY
            in \<lparr>c_name = componentName, c_svgContent = svgContent,
                c_width = num_mul width scale, c_height = num_mul height scale,
                c_pins = Map_sets []
                  (map (\<lambda>(pinName, pos).
                     (pinName, (num_mul (fst pos) scale, num_mul (snd pos) scale)))
                     pins)\<rparr>)
         else \<lparr>c_name = componentName, c_svgContent = svgContent,
                c_width = width, c_height = height, c_pins = pins\<rparr>)"

section \<open>Layout\<close>

record LayoutData =
  l_component :: ComponentSVGData
  l_x :: number
  l_y :: number
  l_absolutePins :: "(jsstring, Point) Map"

definition calculateAbsolutePins ::
  "(jsstring, Point) Map \<Rightarrow> number \<Rightarrow> number \<Rightarrow> (jsstring, Point) Map" where
  "calculateAbsolutePins pins offsetX offsetY =
     Map_sets []
       (map (\<lambda>(pinName, position).
            (pinName, (num_add offsetX (fst position), num_add offsetY (snd position))))
          pins)"

definition spacingX :: number where
  "spacingX = Finite 250"

definition spacingY :: number where
  "spacingY = Finite 200"

text \<open>
  The second loop of \<open>layoutComponents\<close>; the state is the layout, \<open>currentX\<close> and
  \<open>row\<close>. \<open>currentY\<close> never changes.
\<close>

fun placeOthers ::
  "(jsstring, ComponentSVGData) Map \<Rightarrow> jsstring option \<Rightarrow> number \<Rightarrow> jsstring list \<Rightarrow>
   (jsstring, LayoutData) Map \<times> number \<times> nat \<Rightarrow>
   (jsstring, LayoutData) Map \<times> number \<times> nat" where
  "placeOthers loadedComponents arduinoComponent currentY [] st = st"
| "placeOthers loadedComponents arduinoComponent currentY (componentName # rest)
     (layout, currentX, row) =
     (if Some componentName = arduinoComponent then
        placeOthers loadedComponents arduinoComponent currentY rest (layout, currentX, row)
      else
        (case Map_get loadedComponents componentName of
           None \<Rightarrow>
             placeOthers loadedComponents arduinoComponent currentY rest (layout, currentX, row)
         | Some componentData \<Rightarrow>
             (let layout' =
                    Map_set componentName
                      \<lparr>l_component = componentData, l_x = currentX,
                       l_y = num_add currentY (num_mul (Finite (real row)) spacingY),
                       l_absolutePins =
                         calculateAbsolutePins (c_pins componentData) currentX
                           (num_add currentY (num_mul (Finite (real row)) spacingY))\<rparr>
                      layout
              in if row + 1 \<ge> 3 then
                   placeOthers loadedComponents arduinoComponent currentY rest
                     (layout', num_add currentX spacingX, 0)
                 else
                   placeOthers loadedComponents arduinoComponent currentY rest
                     (layout', currentX, row + 1))))"

definition layoutComponents ::
  "(jsstring \<Rightarrow> jsstring) \<Rightarrow> (jsstring, ComponentSVGData) Map \<Rightarrow> jsstring list \<Rightarrow> (jsstring, LayoutData) Map" where
  "layoutComponents lower loadedComponents componentsUsed =
     (let arduinoComponent =
            List.find (\<lambda>c. includes_str (toLowerCase lower c) (js ''arduino'')) componentsUsed;
          currentX = Finite 150;
          currentY = Finite 200;
          (layout, currentX') =
            (case arduinoComponent of
               None \<Rightarrow> ([], currentX)
             | Some a \<Rightarrow>
                 (case Map_get loadedComponents a of
                    None \<Rightarrow> ([], currentX)
                  | Some arduinoData \<Rightarrow>
                      (Map_set a
                         \<lparr>l_component = arduinoData, l_x = currentX, l_y = currentY,
                          l_absolutePins =
                            calculateAbsolutePins (c_pins arduinoData) currentX currentY\<rparr>
                         [],
                       num_add currentX spacingX)))
      in fst (placeOthers loadedComponents arduinoComponent currentY componentsUsed
               (layout, currentX', 0)))"

section \<open>Connection resolver\<close>

datatype error = SyntaxError

record ConnectionPoint =
  p_component :: jsstring
  p_pin :: jsstring
  p_x :: number
  p_y :: number

record ConnectionWire =
  w_from :: ConnectionPoint
  w_to :: ConnectionPoint
  w_color :: jsstring
  w_label :: jsstring

text \<open>\<open>p\<close> matches at the start of \<open>s\<close>, ignoring case as the flag \<open>i\<close> does.\<close>

fun startsWithCI :: "jsstring \<Rightarrow> jsstring \<Rightarrow> bool" where
  "startsWithCI s [] = True"
| "startsWithCI [] (p # ps) = False"
| "startsWithCI (c # cs) (p # ps) = (canonicalize c = canonicalize p \<and> startsWithCI cs ps)"

text \<open>
  \<open>s.replace(/p/gi, '')\<close> for a literal \<open>p\<close>, and with \<open>ws\<close> set
  \<open>s.replace(/p\s*/gi, '')\<close>: every match, from the left, is removed together with the
  white space that follows it. The empty pattern matches the empty string and removes nothing.
\<close>

function replaceCI :: "jsstring \<Rightarrow> bool \<Rightarrow> jsstring \<Rightarrow> jsstring" where
  "replaceCI p ws [] = []"
| "replaceCI p ws (c # cs) =
     (if p \<noteq> [] \<and> startsWithCI (c # cs) p then
        replaceCI p ws
          (if ws then dropWhile isWhiteSpace (drop (length p) (c # cs))
           else drop (length p) (c # cs))
      else c # replaceCI p ws cs)"
  by pat_completeness auto
termination
proof (relation "measure (\<lambda>(p, ws, s). length s)")
  show "wf (measure (\<lambda>(p, ws, s). length s))" by simp
next
  fix p :: jsstring and ws :: bool and c :: nat and cs :: jsstring
  assume "p \<noteq> [] \<and> startsWithCI (c # cs) p"
  then have "length (drop (length p) (c # cs)) < length (c # cs)"
    by (cases p) auto
  moreover have "length (dropWhile isWhiteSpace (drop (length p) (c # cs)))
      \<le> length (drop (length p) (c # cs))"
    by (rule length_dropWhile_le)
  ultimately show
    "((p, ws, if ws then dropWhile isWhiteSpace (drop (length p) (c # cs))
                else drop (length p) (c # cs)), p, ws, c # cs)
      \<in> measure (\<lambda>(p, ws, s). length s)"
    by auto
next
  fix p :: jsstring and ws :: bool and c :: nat and cs :: jsstring
  show "((p, ws, cs), p, ws, c # cs) \<in> measure (\<lambda>(p, ws, s). length s)"
    by simp
qed

text \<open>The syntax characters of a pattern: \<open>^ $ \ . * + ? ( ) [ ] { } |\<close>.\<close>

definition isSyntaxCharacter :: "nat \<Rightarrow> bool" where
  "isSyntaxCharacter c =
     (c \<in> set [94, 36, 92, 46, 42, 43, 63, 40, 41, 91, 93, 123, 125, 124])"

definition plainPattern :: "jsstring \<Rightarrow> bool" where
  "plainPattern p = list_all (\<lambda>c. c < 128 \<and> \<not> isSyntaxCharacter c) p"

text \<open>The parentheses of \<open>p\<close> are balanced, starting at nesting depth \<open>d\<close>.\<close>

fun balanced :: "jsstring \<Rightarrow> nat \<Rightarrow> bool" where
  "balanced [] d = (d = 0)"
| "balanced (c # cs) d =
     (if c = 40 then balanced cs (Suc d)
      else if c = 41 then (case d of 0 \<Rightarrow> False | Suc d' \<Rightarrow> balanced cs d')
      else balanced cs d)"

text \<open>
  \<open>s.replace(new RegExp(pattern, 'gi'), '')\<close>, where the pattern is the component's name
  as the caller gave it:
  \<^item> a pattern of ASCII code units without syntax characters matches itself, ignoring case;
  \<^item> a pattern without backslash and brackets whose parentheses are not balanced is not a
    regular expression: the constructor throws \<open>SyntaxError\<close>;
  \<^item> for every other pattern the result is what the parameter \<open>other\<close> says, so that a
    theorem holds whatever the regular expression engine does there.
\<close>

definition RegExp_replace_gi ::
  "(jsstring \<Rightarrow> jsstring \<Rightarrow> error + jsstring) \<Rightarrow> jsstring \<Rightarrow> jsstring \<Rightarrow> error + jsstring" where
  "RegExp_replace_gi other pattern s =
     (if plainPattern pattern then Inr (replaceCI pattern False s)
      else if list_all (\<lambda>c. c \<noteq> 92 \<and> c \<noteq> 91 \<and> c \<noteq> 93) pattern \<and> \<not> balanced pattern 0
      then Inl SyntaxError
      else other pattern s)"

definition significantWords :: "jsstring list" where
  "significantWords =
     [js ''arduino'', js ''nano'', js ''led'', js ''resistor'', js ''battery'', js ''sensor'',
      js ''hc-sr04'', js ''ultrasonic'']"

text \<open>\<open>s.replace(/[()]/g, '')\<close>.\<close>

definition removeParens :: "jsstring \<Rightarrow> jsstring" where
  "removeParens s = filter (\<lambda>c. c \<noteq> 40 \<and> c \<noteq> 41) s"

text \<open>\<open>s.split(' ')[0]\<close>; \<open>includes(undefined)\<close> would look for the text
  \<open>undefined\<close>.\<close>

definition firstWord :: "jsstring \<Rightarrow> jsstring" where
  "firstWord s = (case split s 32 of [] \<Rightarrow> js ''undefined'' | w # ws \<Rightarrow> w)"

text \<open>The three strategies that set \<open>foundMatch\<close> in \<open>findConnectionPoint\<close>.\<close>

definition foundMatch ::
  "(jsstring \<Rightarrow> jsstring) \<Rightarrow> jsstring \<Rightarrow> jsstring \<Rightarrow> bool" where
  "foundMatch lower pointStr componentName =
     (includes_str (toLowerCase lower pointStr) (toLowerCase lower componentName)
      \<or> list_ex (\<lambda>word. includes_str (toLowerCase lower pointStr) word
                       \<and> includes_str (toLowerCase lower componentName) word) significantWords
      \<or> (let cleanSearch = removeParens (toLowerCase lower pointStr);
              cleanComponent = removeParens (toLowerCase lower componentName)
          in includes_str cleanSearch (firstWord cleanComponent)
             \<or> includes_str cleanComponent (firstWord cleanSearch)))"

text \<open>The chain of replacements that isolates the pin name.\<close>

definition extractPinName ::
  "(jsstring \<Rightarrow> jsstring \<Rightarrow> error + jsstring) \<Rightarrow> jsstring \<Rightarrow> jsstring \<Rightarrow> error + jsstring" where
  "extractPinName other pointStr componentName =
     (case RegExp_replace_gi other componentName pointStr of
        Inl e \<Rightarrow> Inl e
      | Inr r \<Rightarrow>
          (let pinName = trim r;
               pinName = trim (replaceCI (js ''arduino'') True pinName);
               pinName = trim (replaceCI (js ''nano'') True pinName);
               pinName = trim (replaceCI (js ''led'') True pinName);
               pinName = trim (replaceCI (js ''(red)'') True pinName);
               pinName = trim (replaceCI (js ''(green)'') True pinName);
               pinName = trim (replaceCI (js ''red'') True pinName);
               pinName = trim (replaceCI (js ''green'') True pinName)
           in Inr pinName))"

text \<open>The test of the first pin loop.\<close>

definition pinNameMatches ::
  "(jsstring \<Rightarrow> jsstring) \<Rightarrow> jsstring \<Rightarrow> jsstring \<Rightarrow> bool" where
  "pinNameMatches lower pinName pin =
     (toLowerCase lower pinName = toLowerCase lower pin
      \<or> includes_str (toLowerCase lower pinName) (toLowerCase lower pin)
      \<or> includes_str (toLowerCase lower pin) (toLowerCase lower pinName))"

text \<open>\<open>s.match(/\d+/)\<close>: the leftmost longest run of digits, \<open>None\<close> when there is
  no digit.\<close>

definition matchDigits :: "jsstring \<Rightarrow> jsstring option" where
  "matchDigits s =
     (case dropWhile (\<lambda>c. \<not> isDigit c) s of
        [] \<Rightarrow> None
      | d # ds \<Rightarrow> Some (takeWhile isDigit (d # ds)))"

text \<open>The test of the second pin loop.\<close>

definition pinDigitsMatch :: "jsstring \<Rightarrow> jsstring \<Rightarrow> bool" where
  "pinDigitsMatch pinName pin =
     (case (matchDigits pin, matchDigits pinName) of
        (Some pinDigits, Some searchDigits) \<Rightarrow> pinDigits = searchDigits
      | _ \<Rightarrow> False)"

definition connectionPoint :: "jsstring \<Rightarrow> jsstring \<times> Point \<Rightarrow> ConnectionPoint" where
  "connectionPoint componentName entry =
     \<lparr>p_component = componentName, p_pin = fst entry, p_x = fst (snd entry),
      p_y = snd (snd entry)\<rparr>"

text \<open>
  \<open>findConnectionPoint\<close>: the loop over the entries of the layout, in insertion order.
  \<open>Inr None\<close> is the result \<open>null\<close>, \<open>Inl\<close> an exception.
\<close>

fun findConnectionPoint ::
  "(jsstring \<Rightarrow> jsstring) \<Rightarrow> (jsstring \<Rightarrow> jsstring \<Rightarrow> error + jsstring) \<Rightarrow> jsstring \<Rightarrow> (jsstring, LayoutData) Map \<Rightarrow>
   error + ConnectionPoint option" where
  "findConnectionPoint lower other pointStr [] = Inr None"
| "findConnectionPoint lower other pointStr ((componentName, layoutData) # layout) =
     (if foundMatch lower pointStr componentName then
        (case extractPinName other pointStr componentName of
           Inl e \<Rightarrow> Inl e
         | Inr pinName \<Rightarrow>
             (let absolutePins = l_absolutePins layoutData in
              case List.find (\<lambda>entry. pinNameMatches lower pinName (fst entry)) absolutePins of
                Some entry \<Rightarrow> Inr (Some (connectionPoint componentName entry))
              | None \<Rightarrow>
                  (case List.find (\<lambda>entry. pinDigitsMatch pinName (fst entry)) absolutePins of
                     Some entry \<Rightarrow> Inr (Some (connectionPoint componentName entry))
                   | None \<Rightarrow>
                       (case absolutePins of
                          firstPin # others \<Rightarrow> Inr (Some (connectionPoint componentName firstPin))
                        | [] \<Rightarrow> findConnectionPoint lower other pointStr layout))))
      else findConnectionPoint lower other pointStr layout)"

text \<open>
  The loop of \<open>parseConnections\<close> over the connection lines; \<open>wires\<close> is the array
  that \<open>push\<close> extends.
\<close>

fun parseConnections_loop ::
  "(jsstring \<Rightarrow> jsstring) \<Rightarrow> (jsstring \<Rightarrow> jsstring \<Rightarrow> error + jsstring) \<Rightarrow> (jsstring, LayoutData) Map \<Rightarrow>
   ConnectionWire list \<Rightarrow> jsstring list \<Rightarrow> error + ConnectionWire list" where
  "parseConnections_loop lower other layout wires [] = Inr wires"
| "parseConnections_loop lower other layout wires (connection # connections) =
     (if includes_str (toLowerCase lower connection) (js ''upload'')
         \<or> includes_str (toLowerCase lower connection) (js ''code'')
         \<or> includes_str (toLowerCase lower connection) (js ''program'')
      then parseConnections_loop lower other layout wires connections
      else
        (let parts = map trim (split connection arrow) in
         if length parts \<noteq> 2 then parseConnections_loop lower other layout wires connections
         else
           (case findConnectionPoint lower other (parts ! 0) layout of
              Inl e \<Rightarrow> Inl e
            | Inr fromPoint \<Rightarrow>
                (case findConnectionPoint lower other (parts ! 1) layout of
                   Inl e \<Rightarrow> Inl e
                 | Inr toPoint \<Rightarrow>
                     (case (fromPoint, toPoint) of
                        (Some f, Some t) \<Rightarrow>
                          parseConnections_loop lower other layout
                            (wires @ [\<lparr>w_from = f, w_to = t, w_color = getWireColor lower connection,
                                       w_label = connection\<rparr>])
                            connections
                      | _ \<Rightarrow> parseConnections_loop lower other layout wires connections)))))"

definition parseConnections ::
  "(jsstring \<Rightarrow> jsstring) \<Rightarrow> (jsstring \<Rightarrow> jsstring \<Rightarrow> error + jsstring) \<Rightarrow> jsstring list \<Rightarrow> (jsstring, LayoutData) Map \<Rightarrow>
   error + ConnectionWire list" where
  "parseConnections lower other connections layout = parseConnections_loop lower other layout [] connections"

section \<open>Renderer\<close>

text \<open>The decimal digits of a natural number.\<close>

fun digitsOf :: "nat \<Rightarrow> jsstring" where
  "digitsOf n = (if n < 10 then [48 + n] else digitsOf (n div 10) @ [48 + n mod 10])"

declare digitsOf.simps [simp del]

text \<open>
  A number in a template literal (\<open>Number::toString\<close>): NaN and the infinities are
  written by name; an integer below \<open>10^21\<close> in magnitude is written in decimal digits,
  with a minus sign when negative; what any other number is written as is left to the
  parameter \<open>other\<close>.
\<close>

definition numberToString :: "(real \<Rightarrow> jsstring) \<Rightarrow> number \<Rightarrow> jsstring" where
  "numberToString other n =
     (case n of
        NaN \<Rightarrow> js ''NaN''
      | PosInf \<Rightarrow> js ''Infinity''
      | NegInf \<Rightarrow> js ''-Infinity''
      | Finite v \<Rightarrow>
          if v = of_int \<lfloor>v\<rfloor> \<and> \<bar>v\<bar> < 10 ^ 21 then
            (if v < 0 then 45 # digitsOf (nat \<lfloor>- v\<rfloor>) else digitsOf (nat \<lfloor>v\<rfloor>))
          else other v)"

text \<open>\<open>s.replace(/c/g, r)\<close> for one code unit \<open>c\<close>.\<close>

definition replaceUnit :: "nat \<Rightarrow> jsstring \<Rightarrow> jsstring \<Rightarrow> jsstring" where
  "replaceUnit c r s = concat (map (\<lambda>d. if d = c then r else [d]) s)"

text \<open>
  The chain of six replacements that \<open>drawWire\<close> applies to the label and
  \<open>embedComponentSVG\<close> to the component name, in the order of the source.
\<close>

definition escapeMarkup :: "jsstring \<Rightarrow> jsstring" where
  \<open>escapeMarkup s =
     (let s = replaceUnit 38 (js ''&amp;'') s;
          s = replaceUnit omega (js ''&#937;'') s;
          s = replaceUnit 60 (js ''&lt;'') s;
          s = replaceUnit 62 (js ''&gt;'') s;
          s = replaceUnit 34 (js ''&quot;'') s;
          s = replaceUnit 39 (js ''&apos;'') s
      in s)\<close>

text \<open>The class \<open>\w\<close>.\<close>

definition isWordChar :: "nat \<Rightarrow> bool" where
  "isWordChar c =
     ((48 \<le> c \<and> c \<le> 57) \<or> (65 \<le> c \<and> c \<le> 90) \<or> (97 \<le> c \<and> c \<le> 122) \<or> c = 95)"

text \<open>\<open>s.replace(/\s+/g, '_')\<close>; the flag says that the code unit before was white
  space.\<close>

fun underscoreWs :: "bool \<Rightarrow> jsstring \<Rightarrow> jsstring" where
  "underscoreWs b [] = []"
| "underscoreWs b (c # cs) =
     (if isWhiteSpace c then (if b then underscoreWs True cs else 95 # underscoreWs True cs)
      else c # underscoreWs False cs)"

definition cleanIdOf :: "jsstring \<Rightarrow> jsstring" where
  "cleanIdOf componentName = filter isWordChar (underscoreWs False componentName)"

text \<open>
  \<open>s.replace(/pre[^>]*>/g, '')\<close> and, with \<open>q\<close> set, \<open>s.replace(/pre[^>]*\?>/g, '')\<close>:
  a match runs from the literal \<open>pre\<close> to the first \<open>>\<close> after it (which, with
  \<open>q\<close>, a question mark must precede).
\<close>

function removeTags :: "jsstring \<Rightarrow> bool \<Rightarrow> jsstring \<Rightarrow> jsstring" where
  "removeTags pre q [] = []"
| "removeTags pre q (c # cs) =
     (let r = drop (length pre) (c # cs);
          inside = takeWhile (\<lambda>d. d \<noteq> 62) r;
          after = dropWhile (\<lambda>d. d \<noteq> 62) r
      in if pre \<noteq> [] \<and> startsWith (c # cs) pre \<and> after \<noteq> []
            \<and> (if q then inside \<noteq> [] \<and> last inside = 63 else True)
         then removeTags pre q (tl after)
         else c # removeTags pre q cs)"
  by pat_completeness auto
termination
proof (relation "measure (\<lambda>(pre, q, s). length s)")
  show "wf (measure (\<lambda>(pre, q, s). length s))" by simp
next
  fix pre :: jsstring and q :: bool and c :: nat and cs r inside after :: jsstring
  assume r: "r = drop (length pre) (c # cs)"
    and after: "after = dropWhile (\<lambda>d. d \<noteq> 62) r"
    and cond: "pre \<noteq> [] \<and> startsWith (c # cs) pre \<and> after \<noteq> []
        \<and> (if q then inside \<noteq> [] \<and> last inside = 63 else True)"
  have "length after \<le> length r"
    unfolding after by (rule length_dropWhile_le)
  moreover have "length r \<le> length (c # cs)"
    unfolding r by simp
  moreover have "length (tl after) < length after"
    using cond by (cases after) auto
  ultimately show "((pre, q, tl after), pre, q, c # cs) \<in> measure (\<lambda>(pre, q, s). length s)"
    by simp
next
  fix pre :: jsstring and q :: bool and c :: nat and cs :: jsstring
  show "((pre, q, cs), pre, q, c # cs) \<in> measure (\<lambda>(pre, q, s). length s)"
    by simp
qed

text \<open>\<open>s.replace(/p/g, '')\<close> for a literal \<open>p\<close>, case-sensitive.\<close>

function removeLiteral :: "jsstring \<Rightarrow> jsstring \<Rightarrow> jsstring" where
  "removeLiteral p [] = []"
| "removeLiteral p (c # cs) =
     (if p \<noteq> [] \<and> startsWith (c # cs) p then removeLiteral p (drop (length p) (c # cs))
      else c # removeLiteral p cs)"
  by pat_completeness auto
termination
proof (relation "measure (\<lambda>(p, s). length s)")
  show "wf (measure (\<lambda>(p, s). length s))" by simp
next
  fix p :: jsstring and c :: nat and cs :: jsstring
  assume "p \<noteq> [] \<and> startsWith (c # cs) p"
  then show "((p, drop (length p) (c # cs)), p, c # cs) \<in> measure (\<lambda>(p, s). length s)"
    by (cases p) auto
next
  fix p :: jsstring and c :: nat and cs :: jsstring
  show "((p, cs), p, c # cs) \<in> measure (\<lambda>(p, s). length s)"
    by simp
qed

text \<open>
  \<open>embedComponentSVG\<close>. The artwork record has no field \<open>originalWidth\<close> or
  \<open>originalHeight\<close>: both quotients of the inner \<open>scale\<close> are NaN, and \<open>NaN || 1\<close>
  is 1.
\<close>

definition embedComponentSVG ::
  "(real \<Rightarrow> jsstring) \<Rightarrow> jsstring \<Rightarrow> LayoutData \<Rightarrow> jsstring" where
  \<open>embedComponentSVG other componentName layoutData =
     (let component = l_component layoutData;
          x = l_x layoutData;
          y = l_y layoutData;
          svgContent = c_svgContent component;
          svgContent = removeTags (js ''<?xml'') True svgContent;
          svgContent = removeTags (js ''<!DOCTYPE'') False svgContent;
          svgContent = removeTags (js ''<svg'') False svgContent;
          svgContent = removeLiteral (js ''</svg>'') svgContent;
          svgContent = trim svgContent;
          safeComponentName = escapeMarkup componentName;
          cleanId = cleanIdOf componentName
      in
        concat
          [js ''\<newline>'',
           js ''  <!-- Component: '',
           safeComponentName,
           js '' -->\<newline>'',
           js ''  <g id="'',
           cleanId,
           js ''" transform="translate('',
           numberToString other x,
           js '', '',
           numberToString other y,
           js '')">\<newline>'',
           js ''    <!-- Component Background (subtle) -->\<newline>'',
           js ''    <rect x="-5" y="-5" width="'',
           numberToString other (num_add (c_width component) (Finite 10)),
           js ''" height="'',
           numberToString other (num_add (c_height component) (Finite 10)),
           js ''" \<newline>'',
           js ''          fill="#FFFFFF" stroke="#DDD" stroke-width="1" rx="5" opacity="0.5"/>\<newline>'',
           js ''    \<newline>'',
           js ''    <!-- Actual Component SVG -->\<newline>'',
           js ''   <!-- Actual Component SVG (scaled if needed) -->\<newline>'',
           js ''    <g transform="scale('',
           js ''1'',
           js '', '',
           js ''1'',
           js '')">\<newline>'',
           js ''      '',
           svgContent,
           js ''\<newline>'',
           js ''    </g>\<newline>'',
           js ''    <!-- Component Label -->\<newline>'',
           js ''    <text x="'',
           numberToString other (num_div (c_width component) (Finite 2)),
           js ''" y="'',
           numberToString other (num_add (c_height component) (Finite 20)),
           js ''" \<newline>'',
           js ''          font-size="12" font-family="Arial" font-weight="bold"\<newline>'',
           js ''          text-anchor="middle" fill="#333">\<newline>'',
           js ''      '',
           safeComponentName,
           js ''\<newline>'',
           js ''    </text>\<newline>'',
           js ''  </g>\<newline>''])\<close>

definition wirePath :: "(real \<Rightarrow> jsstring) \<Rightarrow> ConnectionPoint \<Rightarrow> ConnectionPoint \<Rightarrow> jsstring" where
  \<open>wirePath other fromPt toPt =
     (let dx = num_sub (p_x toPt) (p_x fromPt);
          dy = num_sub (p_y toPt) (p_y fromPt);
          distance = Math_sqrt (num_add (num_mul dx dx) (num_mul dy dy))
      in if num_less (Math_abs dy) (Finite 50) then
           (let curvature = num_mul distance (round64 0.25) in
            concat
              [js ''M '',
               numberToString other (p_x fromPt),
               js '' '',
               numberToString other (p_y fromPt),
               js '' C '',
               numberToString other (num_add (p_x fromPt) curvature),
               js '' '',
               numberToString other (p_y fromPt),
               js '', '',
               numberToString other (num_sub (p_x toPt) curvature),
               js '' '',
               numberToString other (p_y toPt),
               js '', '',
               numberToString other (p_x toPt),
               js '' '',
               numberToString other (p_y toPt)])
         else if num_less (Math_abs dx) (Finite 50) then
           (let curvature = num_mul distance (round64 0.25) in
            concat
              [js ''M '',
               numberToString other (p_x fromPt),
               js '' '',
               numberToString other (p_y fromPt),
               js '' C '',
               numberToString other (p_x fromPt),
               js '' '',
               numberToString other (num_add (p_y fromPt) curvature),
               js '', '',
               numberToString other (p_x toPt),
               js '' '',
               numberToString other (num_sub (p_y toPt) curvature),
               js '', '',
               numberToString other (p_x toPt),
               js '' '',
               numberToString other (p_y toPt)])
         else
           (let midY = num_div (num_add (p_y fromPt) (p_y toPt)) (Finite 2) in
            concat
              [js ''M '',
               numberToString other (p_x fromPt),
               js '' '',
               numberToString other (p_y fromPt),
               js '' L '',
               numberToString other (p_x fromPt),
               js '' '',
               numberToString other midY,
               js '' L '',
               numberToString other (p_x toPt),
               js '' '',
               numberToString other midY,
               js '' L '',
               numberToString other (p_x toPt),
               js '' '',
               numberToString other (p_y toPt)]))\<close>

definition drawWire :: "(real \<Rightarrow> jsstring) \<Rightarrow> ConnectionWire \<Rightarrow> jsstring" where
  \<open>drawWire other wire =
     (let fromPt = w_from wire;
          toPt = w_to wire;
          color = w_color wire;
          path = wirePath other fromPt toPt;
          safeLabel = escapeMarkup (w_label wire)
      in
        concat
          [js ''\<newline>'',
           js ''    <!-- Wire: '',
           safeLabel,
           js '' -->\<newline>'',
           js ''    \<newline>'',
           js ''    <!-- Wire glow effect -->\<newline>'',
           js ''    <path d="'',
           path,
           js ''" \<newline>'',
           js ''          stroke="'',
           color,
           js ''" \<newline>'',
           js ''          stroke-width="8" \<newline>'',
           js ''          fill="none"\<newline>'',
           js ''          stroke-linecap="round"\<newline>'',
           js ''          opacity="0.15"\<newline>'',
           js ''          filter="blur(3px)"/>\<newline>'',
           js ''    \<newline>'',
           js ''    <!-- Wire shadow -->\<newline>'',
           js ''    <path d="'',
           path,
           js ''" \<newline>'',
           js ''          stroke="#00000020" \<newline>'',
           js ''          stroke-width="5" \<newline>'',
           js ''          fill="none"\<newline>'',
           js ''          stroke-linecap="round"\<newline>'',
           js ''          transform="translate(2, 2)"/>\<newline>'',
           js ''    \<newline>'',
           js ''    <!-- Main wire -->\<newline>'',
           js ''    <path d="'',
           path,
           js ''" \<newline>'',
           js ''          stroke="'',
           color,
           js ''" \<newline>'',
           js ''          stroke-width="4" \<newline>'',
           js ''          fill="none"\<newline>'',
           js ''          stroke-linecap="round"\<newline>'',
           js ''          stroke-linejoin="round"/>\<newline>'',
           js ''    \<newline>'',
           js ''    <!-- Connection dots with glow -->\<newline>'',
           js ''    <circle cx="'',
           numberToString other (p_x fromPt),
           js ''" cy="'',
           numberToString other (p_y fromPt),
           js ''" r="8" fill="'',
           color,
           js ''" opacity="0.3"/>\<newline>'',
           js ''    <circle cx="'',
           numberToString other (p_x fromPt),
           js ''" cy="'',
           numberToString other (p_y fromPt),
           js ''" r="5" fill="'',
           color,
           js ''" stroke="#FFF" stroke-width="2"/>\<newline>'',
           js ''    \<newline>'',
           js ''    <circle cx="'',
           numberToString other (p_x toPt),
           js ''" cy="'',
           numberToString other (p_y toPt),
           js ''" r="8" fill="'',
           color,
           js ''" opacity="0.3"/>\<newline>'',
           js ''    <circle cx="'',
           numberToString other (p_x toPt),
           js ''" cy="'',
           numberToString other (p_y toPt),
           js ''" r="5" fill="'',
           color,
           js ''" stroke="#FFF" stroke-width="2"/>\<newline>''])\<close>

text \<open>The canvas size that \<open>assembleFinalSVG\<close> computes before it writes anything.\<close>

definition canvasWidth_of :: "(jsstring, LayoutData) Map \<Rightarrow> number" where
  "canvasWidth_of layout =
     (let maxX = foldl (\<lambda>maxX (componentName, layoutData).
                    Math_max maxX (num_add (l_x layoutData) (c_width (l_component layoutData))))
                  (Finite 0) layout
      in Math_min (num_add maxX (Finite 200)) (Finite 2000))"

definition canvasHeight_of :: "(jsstring, LayoutData) Map \<Rightarrow> number" where
  "canvasHeight_of layout =
     (let maxY = foldl (\<lambda>maxY (componentName, layoutData).
                    Math_max maxY (num_add (l_y layoutData) (c_height (l_component layoutData))))
                  (Finite 0) layout
      in Math_min (num_add maxY (Finite 250)) (Finite 1500))"

text \<open>The template literals of \<open>assembleFinalSVG\<close>, in the order of the source.\<close>

definition svgHeader ::
  "(real \<Rightarrow> jsstring) \<Rightarrow> number \<Rightarrow> number \<Rightarrow> jsstring \<Rightarrow> jsstring" where
  \<open>svgHeader other canvasWidth canvasHeight circuitName =
     concat
       [js ''<?xml version="1.0" encoding="UTF-8"?>\<newline>'',
        js ''<svg width="'',
        numberToString other canvasWidth,
        js ''" height="'',
        numberToString other canvasHeight,
        js ''" xmlns="http://www.w3.org/2000/svg">\<newline>'',
        js ''  \<newline>'',
        js ''  <!-- Background -->\<newline>'',
        js ''  <rect width="100%" height="100%" fill="#FAFAFA"/>\<newline>'',
        js ''  \<newline>'',
        js ''  <!-- Grid Pattern -->\<newline>'',
        js ''  <defs>\<newline>'',
        js ''    <pattern id="grid" width="20" height="20" patternUnits="userSpaceOnUse">\<newline>'',
        js ''      <path d="M 20 0 L 0 0 0 20" fill="none" stroke="#E0E0E0" stroke-width="0.5"/>\<newline>'',
        js ''    </pattern>\<newline>'',
        js ''  </defs>\<newline>'',
        js ''  <rect width="100%" height="100%" fill="url(#grid)"/>\<newline>'',
        js ''  \<newline>'',
        js ''  <!-- Title -->\<newline>'',
        js ''  <rect x="10" y="10" width="'',
        numberToString other (num_sub canvasWidth (Finite 20)),
        js ''" height="60" fill="#FFFFFF" stroke="#333" stroke-width="2" rx="10"/>\<newline>'',
        js ''  <text x="'',
        numberToString other (num_div canvasWidth (Finite 2)),
        js ''" y="45" font-size="28" font-family="Arial, sans-serif" \<newline>'',
        js ''  font-weight="bold" text-anchor="middle" fill="#333">\<newline>'',
        js ''  '',
        circuitName,
        js ''\<newline>'',
        js ''  </text>\<newline>'',
        js ''  \<newline>'',
        js ''  <!-- Components Layer -->\<newline>'',
        js ''  <g id="components">\<newline>'',
        js ''  '']\<close>

definition wiresLayerOpen :: jsstring where
  \<open>wiresLayerOpen =
     concat
       [js ''  </g>\<newline>'',
        js ''  \<newline>'',
        js ''  <!-- Wires Layer -->\<newline>'',
        js ''  <g id="wires">\<newline>'',
        js ''  '']\<close>

definition pinLabelsOpen :: jsstring where
  \<open>pinLabelsOpen =
     concat
       [js ''  </g>\<newline>'',
        js ''  \<newline>'',
        js ''  <!-- Pin Labels -->\<newline>'',
        js ''  <g id="pin-labels">\<newline>'']\<close>

definition pinLabel :: "(real \<Rightarrow> jsstring) \<Rightarrow> jsstring \<times> Point \<Rightarrow> jsstring" where
  \<open>pinLabel other entry =
     (let pinName = fst entry; position = snd entry in
        concat
          [js ''    <circle cx="'',
           numberToString other (fst position),
           js ''" cy="'',
           numberToString other (snd position),
           js ''" r="4" fill="#FF6B6B" stroke="#FFF" stroke-width="1.5"/>\<newline>'',
           js ''    <text x="'',
           numberToString other (num_add (fst position) (Finite 10)),
           js ''" y="'',
           numberToString other (num_sub (snd position) (Finite 5)),
           js ''" font-size="10" fill="#666">'',
           pinName,
           js ''</text>\<newline>''])\<close>

definition svgFooter :: "(real \<Rightarrow> jsstring) \<Rightarrow> number \<Rightarrow> number \<Rightarrow> jsstring" where
  \<open>svgFooter other canvasWidth canvasHeight =
     concat
       [js ''  </g>\<newline>'',
        js ''  \<newline>'',
        js ''  <!-- Legend -->\<newline>'',
        js ''  <g id="legend" transform="translate(20, '',
        numberToString other (num_sub canvasHeight (Finite 120)),
        js '')">\<newline>'',
        js ''    <rect x="-10" y="-10" width="400" height="110" fill="#FFFFFF" stroke="#333" stroke-width="2" rx="5"/>\<newline>'',
        js ''    <text x="0" y="5" font-size="14" font-weight="bold" fill="#333">Wire Color Guide:</text>\<newline>'',
        js ''    \<newline>'',
        js ''    <line x1="0" y1="25" x2="50" y2="25" stroke="#FF0000" stroke-width="4"/>\<newline>'',
        js ''    <text x="60" y="30" font-size="12" fill="#333">Power (VIN, 5V, VCC)</text>\<newline>'',
        js ''    \<newline>'',
        js ''    <line x1="0" y1="45" x2="50" y2="45" stroke="#000000" stroke-width="4"/>\<newline>'',
        js ''    <text x="60" y="50" font-size="12" fill="#333">Ground (GND)</text>\<newline>'',
        js ''    \<newline>'',
        js ''    <line x1="200" y1="25" x2="250" y2="25" stroke="#00FF00" stroke-width="4"/>\<newline>'',
        js ''    <text x="260" y="30" font-size="12" fill="#333">Digital Pins</text>\<newline>'',
        js ''    \<newline>'',
        js ''    <line x1="200" y1="45" x2="250" y2="45" stroke="#0088FF" stroke-width="4"/>\<newline>'',
        js ''    <text x="260" y="50" font-size="12" fill="#333">Analog Pins</text>\<newline>'',
        js ''    \<newline>'',
        js ''    <line x1="0" y1="65" x2="50" y2="65" stroke="#FFFF00" stroke-width="4"/>\<newline>'',
        js ''    <text x="60" y="70" font-size="12" fill="#333">Signal</text>\<newline>'',
        js ''    \<newline>'',
        js ''    <line x1="200" y1="65" x2="250" y2="65" stroke="#888888" stroke-width="4"/>\<newline>'',
        js ''    <text x="260" y="70" font-size="12" fill="#333">Other</text>\<newline>'',
        js ''  </g>\<newline>'',
        js ''  \<newline>'',
        js ''  <!-- Footer -->\<newline>'',
        js ''  <text x="'',
        numberToString other (num_div canvasWidth (Finite 2)),
        js ''" y="'',
        numberToString other (num_sub canvasHeight (Finite 10)),
        js ''" font-size="10" \<newline>'',
        js ''        font-family="Arial" text-anchor="middle" fill="#999">\<newline>'',
        js ''    Generated by Advanced Circuit Assembler '' @ [8226] @ js '' Using Real Component SVGs\<newline>'',
        js ''  </text>\<newline>'',
        js ''  \<newline>'',
        js ''</svg>'']\<close>

definition assembleFinalSVG ::
  "(real \<Rightarrow> jsstring) \<Rightarrow> jsstring \<Rightarrow> (jsstring, LayoutData) Map \<Rightarrow> ConnectionWire list \<Rightarrow>
   jsstring" where
  "assembleFinalSVG other circuitName layout wires =
     (let canvasWidth = canvasWidth_of layout;
          canvasHeight = canvasHeight_of layout;
          svg = svgHeader other canvasWidth canvasHeight circuitName;
          svg = foldl (\<lambda>svg (componentName, layoutData).
                  svg @ embedComponentSVG other componentName layoutData) svg layout;
          svg = svg @ wiresLayerOpen;
          svg = foldl (\<lambda>svg wire. svg @ drawWire other wire) svg wires;
          svg = svg @ pinLabelsOpen;
          svg = foldl (\<lambda>svg (componentName, layoutData).
                  foldl (\<lambda>svg entry. svg @ pinLabel other entry) svg
                    (l_absolutePins layoutData)) svg layout;
          svg = svg @ svgFooter other canvasWidth canvasHeight
      in svg)"

section \<open>The specification's vocabulary\<close>

text \<open>
  The definitions of this section follow the words of the specification, not the source;
  the theorems below compare them with the functions of the source.
\<close>

text \<open>The keyword groups of the wire colour rule, on the lowercased connection text.\<close>

definition hasPowerKeyword :: "jsstring \<Rightarrow> bool" where
  "hasPowerKeyword conn =
     list_ex (includes_str conn)
       [js ''vin'', js ''5v'', js ''3.3v'', js ''vcc'', js ''power'', js ''+'']"

definition hasGroundKeyword :: "jsstring \<Rightarrow> bool" where
  "hasGroundKeyword conn = list_ex (includes_str conn) [js ''gnd'', js ''ground'', js ''-'']"

definition hasSignalKeyword :: "jsstring \<Rightarrow> bool" where
  "hasSignalKeyword conn = list_ex (includes_str conn) [js ''signal'', js ''trig'', js ''echo'']"

text \<open>An ordered list of rules (predicate, result), evaluated top to bottom: the first
  rule whose predicate holds gives the result.\<close>

fun firstMatch :: "(('a \<Rightarrow> bool) \<times> 'b) list \<Rightarrow> 'b \<Rightarrow> 'a \<Rightarrow> 'b" where
  "firstMatch [] d a = d"
| "firstMatch ((p, r) # rules) d a = (if p a then r else firstMatch rules d a)"

definition colorRules :: "((jsstring \<Rightarrow> bool) \<times> jsstring) list" where
  "colorRules =
     [(hasPowerKeyword, js ''#FF0000''),
      (hasGroundKeyword, js ''#000000''),
      (hasSignalKeyword, js ''#FFFF00''),
      (matchLetterDigits 100, js ''#00FF00''),
      (matchLetterDigits 97, js ''#0088FF'')]"




text \<open>An entry of the layout whose absolute pins are the component's pins moved by the
  placement offset.\<close>

definition placed :: "jsstring \<times> LayoutData \<Rightarrow> bool" where
  "placed e =
     (l_absolutePins (snd e) =
        calculateAbsolutePins (c_pins (l_component (snd e))) (l_x (snd e)) (l_y (snd e)))"

text \<open>
  A connection line that is not skipped as an annotation: its lowercased text has none of
  the keywords, and the arrow splits it into exactly two parts.
\<close>

definition isWiringLine ::
  "(jsstring \<Rightarrow> jsstring) \<Rightarrow> jsstring \<Rightarrow> bool" where
  "isWiringLine lower connection =
     (\<not> includes_str (toLowerCase lower connection) (js ''upload'')
      \<and> \<not> includes_str (toLowerCase lower connection) (js ''code'')
      \<and> \<not> includes_str (toLowerCase lower connection) (js ''program'')
      \<and> length (split connection arrow) = 2)"

text \<open>The wire that a line contributes, if any: both trimmed parts must resolve.\<close>

definition wireOf ::
  "(jsstring \<Rightarrow> jsstring) \<Rightarrow> (jsstring \<Rightarrow> jsstring \<Rightarrow> error + jsstring) \<Rightarrow> (jsstring, LayoutData) Map \<Rightarrow> jsstring \<Rightarrow>
   ConnectionWire option" where
  "wireOf lower other layout connection =
     (if isWiringLine lower connection then
        (case (findConnectionPoint lower other (trim (split connection arrow ! 0)) layout,
               findConnectionPoint lower other (trim (split connection arrow ! 1)) layout) of
           (Inr (Some f), Inr (Some t)) \<Rightarrow>
             Some \<lparr>w_from = f, w_to = t, w_color = getWireColor lower connection,
                   w_label = connection\<rparr>
         | _ \<Rightarrow> None)
      else None)"

text \<open>Resolving the two endpoints of the line raises no exception.\<close>

definition raisesNoError ::
  "(jsstring \<Rightarrow> jsstring) \<Rightarrow> (jsstring \<Rightarrow> jsstring \<Rightarrow> error + jsstring) \<Rightarrow> (jsstring, LayoutData) Map \<Rightarrow> jsstring \<Rightarrow> bool" where
  "raisesNoError lower other layout connection =
     (if isWiringLine lower connection then
        (case (findConnectionPoint lower other (trim (split connection arrow ! 0)) layout,
               findConnectionPoint lower other (trim (split connection arrow ! 1)) layout) of
           (Inr f, Inr t) \<Rightarrow> True
         | _ \<Rightarrow> False)
      else True)"

text \<open>What the chain of replacements in \<open>escapeMarkup\<close> does to one code unit.\<close>

definition escapeUnit :: "nat \<Rightarrow> jsstring" where
  \<open>escapeUnit c =
     (if c = 38 then js ''&amp;''
      else if c = omega then js ''&#937;''
      else if c = 60 then js ''&lt;''
      else if c = 62 then js ''&gt;''
      else if c = 34 then js ''&quot;''
      else if c = 39 then js ''&apos;''
      else [c])\<close>

text \<open>
  Text that is escaped for the reserved characters of the markup: it has no angle bracket
  and no quote, and every ampersand in it starts a reference (letters, digits or \<open>#\<close>,
  then a semicolon).
\<close>

definition isRefChar :: "nat \<Rightarrow> bool" where
  "isRefChar c = ((48 \<le> c \<and> c \<le> 57) \<or> (65 \<le> c \<and> c \<le> 90) \<or> (97 \<le> c \<and> c \<le> 122) \<or> c = 35)"

definition referenceAt :: "jsstring \<Rightarrow> bool" where
  "referenceAt s =
     (takeWhile isRefChar s \<noteq> [] \<and>
      (case dropWhile isRefChar s of [] \<Rightarrow> False | d # ds \<Rightarrow> d = 59))"

fun markupSafe :: "jsstring \<Rightarrow> bool" where
  "markupSafe [] = True"
| "markupSafe (c # cs) =
     (c \<noteq> 60 \<and> c \<noteq> 62 \<and> c \<noteq> 34 \<and> c \<noteq> 39
      \<and> (if c = 38 then referenceAt cs else True) \<and> markupSafe cs)"
section \<open>Rounding\<close>


lemma floor_log2: assumes "2 powr of_int k \<le> x" "x < 2 powr of_int (k + 1)"
  shows "\<lfloor>log 2 x\<rfloor> = k"
proof -
  have pos: "0 < x" using assms(1) by (smt (verit) powr_gt_zero)
  have "of_int k \<le> log 2 x" using assms(1) pos by (simp add: le_log_iff)
  moreover have "log 2 x < of_int (k + 1)" using assms(2) pos by (simp add: log_less_iff)
  ultimately show ?thesis by linarith
qed

lemma exponent_eval:
  assumes "2 powr of_int k \<le> \<bar>x\<bar>" "\<bar>x\<bar> < 2 powr of_int (k + 1)" "- 1022 \<le> k"
  shows "exponent x = k"
  unfolding exponent_def floor_log2 [OF assms(1,2)] using assms(3) by simp

lemma binary64_eval:
  assumes "2 powr of_int k \<le> \<bar>x\<bar>" "\<bar>x\<bar> < 2 powr of_int (k + 1)" "- 1022 \<le> k"
  shows "binary64 x = of_int (roundEven (x / 2 powr of_int (k - 52))) * 2 powr of_int (k - 52)"
proof -
  have "x \<noteq> 0" using assms(1) by (smt (verit) powr_gt_zero abs_zero)
  then show ?thesis
    unfolding binary64_def Let_def exponent_eval [OF assms] by simp
qed

lemma powr_neg_nat: "2 powr (- real n) = 1 / (2::real) ^ n"
  by (simp add: powr_minus powr_realpow divide_inverse)

lemma binary64_small:
  assumes "1 \<le> \<bar>x\<bar> * 2 ^ k" "\<bar>x\<bar> * 2 ^ k < 2" "k \<le> 1022"
  shows "binary64 x = of_int (roundEven (x * 2 ^ (52 + k))) / 2 ^ (52 + k)"
proof -
  have a: "2 powr of_int (- int k) \<le> \<bar>x\<bar>"
    using assms(1) by (simp add: powr_neg_nat field_simps)
  have "2 powr (1 - real k) = 2 / (2::real) ^ k"
    by (simp add: powr_diff powr_realpow)
  moreover have "\<bar>x\<bar> < 2 / 2 ^ k"
    using assms(2) by (simp add: field_simps)
  ultimately have b: "\<bar>x\<bar> < 2 powr of_int (- int k + 1)"
    by simp
  have c: "- 1022 \<le> - int k" using assms(3) by simp
  have p: "2 powr of_int (- int k - 52) = 1 / (2::real) ^ (52 + k)"
    using powr_neg_nat [of "52 + k"] by (simp add: algebra_simps)
  show ?thesis
    unfolding binary64_eval [OF a b c] p by simp
qed

lemma binary64_big:
  assumes "2 ^ k \<le> \<bar>x\<bar>" "\<bar>x\<bar> < 2 ^ (k + 1)"
  shows "binary64 x = of_int (roundEven (x * 2 ^ 52 / 2 ^ k)) * 2 ^ k / 2 ^ 52"
proof -
  have a: "2 powr of_int (int k) \<le> \<bar>x\<bar>"
    using assms(1) by (simp add: powr_realpow)
  have b: "\<bar>x\<bar> < 2 powr of_int (int k + 1)"
    using assms(2) powr_realpow [of 2 "k + 1"] by (simp add: add.commute)
  have c: "- 1022 \<le> int k" by simp
  have p: "2 powr of_int (int k - 52) = (2::real) ^ k / 2 ^ 52"
    using powr_diff [of 2 "real k" 52] powr_realpow [of 2 k] powr_realpow [of 2 52] by simp
  show ?thesis
    unfolding binary64_eval [OF a b c] p by (simp add: field_simps)
qed

lemma roundEven_of_int: "roundEven (of_int n) = n"
  by (simp add: roundEven_def)

lemma roundEven_bounds: "\<lfloor>y\<rfloor> \<le> roundEven y" "roundEven y \<le> \<lfloor>y\<rfloor> + 1"
  by (simp_all add: roundEven_def Let_def)

lemma roundEven_mono: assumes "a \<le> b" shows "roundEven a \<le> roundEven b"
proof (cases "\<lfloor>a\<rfloor> = \<lfloor>b\<rfloor>")
  case True
  then have "a - of_int \<lfloor>a\<rfloor> \<le> b - of_int \<lfloor>b\<rfloor>" using assms by simp
  then show ?thesis
    unfolding roundEven_def Let_def using True by auto
next
  case False
  have "\<lfloor>a\<rfloor> \<le> \<lfloor>b\<rfloor>" using assms by (rule floor_mono)
  with False have "\<lfloor>a\<rfloor> + 1 \<le> \<lfloor>b\<rfloor>" by simp
  then show ?thesis
    using roundEven_bounds(2) [of a] roundEven_bounds(1) [of b] by linarith
qed

lemma roundEven_minus: "roundEven (- y) = - roundEven y"
proof (cases "y = of_int \<lfloor>y\<rfloor>")
  case True
  then obtain n where "y = of_int n" by metis
  then show ?thesis using roundEven_of_int [of "- n"] roundEven_of_int [of n] by simp
next
  case False
  then have fl: "\<lfloor>- y\<rfloor> = - \<lfloor>y\<rfloor> - 1"
    by (metis ceiling_altdef ceiling_def add_diff_cancel minus_diff_eq uminus_add_conv_diff minus_minus)
  have frac: "y - of_int \<lfloor>y\<rfloor> < 1" "0 < y - of_int \<lfloor>y\<rfloor>"
    using False by linarith+
  show ?thesis
    unfolding roundEven_def Let_def fl using frac
    by (auto simp: algebra_simps)
qed

lemma log2_bounds:
  assumes "0 < x"
  shows "2 powr of_int \<lfloor>log 2 x\<rfloor> \<le> x" "x < 2 powr of_int (\<lfloor>log 2 x\<rfloor> + 1)"
proof -
  have "of_int \<lfloor>log 2 x\<rfloor> \<le> log 2 x" by simp
  then show "2 powr of_int \<lfloor>log 2 x\<rfloor> \<le> x"
    using assms by (simp add: powr_le_iff)
  have "log 2 x < of_int (\<lfloor>log 2 x\<rfloor> + 1)" by simp
  then show "x < 2 powr of_int (\<lfloor>log 2 x\<rfloor> + 1)"
    using assms by (simp add: less_powr_iff del: of_int_add)
qed

lemma binary64_zero: "binary64 0 = 0"
  by (simp add: binary64_def)

lemma exponent_minus: "exponent (- x) = exponent x"
  by (simp add: exponent_def)

lemma binary64_minus: "binary64 (- x) = - binary64 x"
  by (simp add: binary64_def Let_def roundEven_minus exponent_minus)

lemma ulp_split: "(2::real) powr of_int (e - 52) = 2 powr of_int e / 2 ^ 52"
proof -
  have "(2::real) powr of_int (e - 52) = 2 powr of_int e / 2 powr 52"
    by (simp add: powr_diff)
  also have "(2::real) powr 52 = 2 ^ 52"
    using powr_realpow [of 2 52] by simp
  finally show ?thesis .
qed



text \<open>Rounding is monotone.\<close>

lemma binary64_upper:
  assumes "0 < x"
  shows "binary64 x \<le> 2 powr of_int (exponent x + 1)"
proof -
  define e where "e = exponent x"
  define ulp :: real where "ulp = 2 powr of_int (e - 52)"
  have ulp: "0 < ulp" by (simp add: ulp_def)
  have b: "binary64 x = of_int (roundEven (x / ulp)) * ulp"
    using assms by (simp add: binary64_def Let_def e_def ulp_def)
  have hi: "2 powr of_int (e + 1) = 2 ^ 53 * ulp"
  proof -
    have "(2::real) powr of_int (e + 1) = 2 powr of_int e * 2"
      using powr_add [of "2::real" "of_int e" 1] by simp
    then show ?thesis unfolding ulp_def ulp_split by simp
  qed
  have "\<lfloor>log 2 x\<rfloor> \<le> e" using assms by (simp add: e_def exponent_def)
  then have "(2::real) powr of_int (\<lfloor>log 2 x\<rfloor> + 1) \<le> 2 powr of_int (e + 1)"
    by (simp del: of_int_add)
  then have "x < 2 ^ 53 * ulp" using log2_bounds(2) [OF assms] unfolding hi by linarith
  then have "x / ulp \<le> 2 ^ 53" using ulp by (simp add: pos_divide_le_eq)
  then have "roundEven (x / ulp) \<le> roundEven (2 ^ 53)" by (rule roundEven_mono)
  moreover have "roundEven (2 ^ 53) = 2 ^ 53"
    using roundEven_of_int [of "2 ^ 53"] by simp
  ultimately have "of_int (roundEven (x / ulp)) \<le> (2 ^ 53 :: real)"
    by (metis of_int_le_iff of_int_numeral of_int_power)
  then have "of_int (roundEven (x / ulp)) * ulp \<le> 2 ^ 53 * ulp"
    using ulp by (intro mult_right_mono) auto
  then show ?thesis
    unfolding e_def [symmetric] hi b .
qed

lemma binary64_lower:
  assumes "0 < x" "- 1022 \<le> \<lfloor>log 2 x\<rfloor>"
  shows "2 powr of_int \<lfloor>log 2 x\<rfloor> \<le> binary64 x"
proof -
  define e where "e = \<lfloor>log 2 x\<rfloor>"
  define ulp :: real where "ulp = 2 powr of_int (e - 52)"
  have ulp: "0 < ulp" by (simp add: ulp_def)
  have ex: "exponent x = e" using assms by (simp add: exponent_def e_def)
  have b: "binary64 x = of_int (roundEven (x / ulp)) * ulp"
    using assms(1) by (simp add: binary64_def Let_def ex ulp_def)
  have lo: "2 powr of_int e = 2 ^ 52 * ulp"
    unfolding ulp_def ulp_split by simp
  have "2 ^ 52 * ulp \<le> x" using log2_bounds(1) [OF assms(1)] unfolding e_def [symmetric] lo .
  then have "2 ^ 52 \<le> x / ulp" using ulp by (simp add: pos_le_divide_eq)
  then have "roundEven (2 ^ 52) \<le> roundEven (x / ulp)" by (rule roundEven_mono)
  moreover have "roundEven (2 ^ 52) = 2 ^ 52"
    using roundEven_of_int [of "2 ^ 52"] by simp
  ultimately have "(2 ^ 52 :: real) \<le> of_int (roundEven (x / ulp))"
    by (metis of_int_le_iff of_int_numeral of_int_power)
  then have "2 ^ 52 * ulp \<le> of_int (roundEven (x / ulp)) * ulp"
    using ulp by (intro mult_right_mono) auto
  then show ?thesis
    unfolding e_def [symmetric] lo b .
qed

lemma binary64_nonneg: assumes "0 \<le> x" shows "0 \<le> binary64 x"
proof (cases "x = 0")
  case True
  then show ?thesis by (simp add: binary64_zero)
next
  case False
  define ulp :: real where "ulp = 2 powr of_int (exponent x - 52)"
  have ulp: "0 < ulp" by (simp add: ulp_def)
  have "0 \<le> x / ulp" using assms ulp by simp
  then have "roundEven 0 \<le> roundEven (x / ulp)" by (rule roundEven_mono)
  then have "0 \<le> roundEven (x / ulp)" using roundEven_of_int [of 0] by simp
  then show ?thesis
    using False ulp by (simp add: binary64_def Let_def ulp_def)
qed

lemma binary64_mono_pos:
  assumes "0 < x" "x \<le> y"
  shows "binary64 x \<le> binary64 y"
proof -
  have y: "0 < y" using assms by simp
  have "\<lfloor>log 2 x\<rfloor> \<le> \<lfloor>log 2 y\<rfloor>"
    using assms by (intro floor_mono) (simp add: log_le_cancel_iff)
  then have le: "exponent x \<le> exponent y"
    using assms(1) y by (simp add: exponent_def)
  show ?thesis
  proof (cases "exponent x = exponent y")
    case True
    define ulp :: real where "ulp = 2 powr of_int (exponent y - 52)"
    have ulp: "0 < ulp" by (simp add: ulp_def)
    have bx: "binary64 x = of_int (roundEven (x / ulp)) * ulp"
      using assms(1) by (simp add: binary64_def Let_def ulp_def True)
    have by': "binary64 y = of_int (roundEven (y / ulp)) * ulp"
      using y by (simp add: binary64_def Let_def ulp_def)
    have "x / ulp \<le> y / ulp" using assms(2) ulp by (simp add: divide_right_mono)
    then have "roundEven (x / ulp) \<le> roundEven (y / ulp)" by (rule roundEven_mono)
    then show ?thesis using ulp by (simp add: bx by')
  next
    case False
    with le have lt: "exponent x + 1 \<le> exponent y" by simp
    have "- 1022 \<le> exponent x" by (simp add: exponent_def)
    with lt have "- 1022 < exponent y" by simp
    then have ey: "exponent y = \<lfloor>log 2 y\<rfloor>" "- 1022 \<le> \<lfloor>log 2 y\<rfloor>"
      using y by (simp_all add: exponent_def max_def split: if_splits)
    from lt have "(2::real) powr of_int (exponent x + 1) \<le> 2 powr of_int (exponent y)"
      by (simp del: of_int_add)
    then show ?thesis
      using binary64_upper [OF assms(1)] binary64_lower [OF y ey(2)] unfolding ey(1) by linarith
  qed
qed

lemma binary64_mono: assumes "x \<le> y" shows "binary64 x \<le> binary64 y"
proof -
  consider "0 < x" | "x = 0" | "x < 0" "0 \<le> y" | "x < 0" "y < 0" by linarith
  then show ?thesis
  proof cases
    case 1
    then show ?thesis using assms by (rule binary64_mono_pos)
  next
    case 2
    then show ?thesis
      using assms binary64_nonneg [of y] by (simp add: binary64_zero)
  next
    case 3
    have "0 \<le> binary64 (- x)" using 3(1) by (intro binary64_nonneg) simp
    then have "binary64 x \<le> 0" by (simp add: binary64_minus)
    moreover have "0 \<le> binary64 y"
      using 3(2) by (rule binary64_nonneg)
    ultimately show ?thesis by simp
  next
    case 4
    have "binary64 (- y) \<le> binary64 (- x)"
      using 4 assms by (intro binary64_mono_pos) auto
    then show ?thesis by (simp add: binary64_minus)
  qed
qed

text \<open>Integers below \<open>2^53\<close> in magnitude are binary64 values.\<close>

lemma binary64_int:
  assumes "x \<in> \<int>" "\<bar>x\<bar> < 2 ^ 53"
  shows "binary64 x = x"
proof (cases "x = 0")
  case True
  then show ?thesis by (simp add: binary64_zero)
next
  case False
  from assms(1) obtain n :: int where n: "x = of_int n" by (auto elim: Ints_cases)
  define e where "e = \<lfloor>log 2 \<bar>x\<bar>\<rfloor>"
  have pos: "0 < \<bar>x\<bar>" using False by simp
  have "n \<noteq> 0" using False n by simp
  then have "1 \<le> \<bar>n\<bar>" by simp
  then have "1 \<le> \<bar>x\<bar>" unfolding n by (metis of_int_1_le_iff of_int_abs)
  then have "0 \<le> log 2 \<bar>x\<bar>" by simp
  then have e0: "0 \<le> e" by (simp add: e_def)
  then have ex: "exponent x = e" by (simp add: exponent_def e_def)
  have "log 2 \<bar>x\<bar> < 53"
    using assms(2) pos by (simp add: log_less_iff powr_realpow [of 2 53, simplified])
  then have e52: "e \<le> 52" unfolding e_def by linarith
  define k where "k = nat (52 - e)"
  have k: "of_int (e - 52) = - real k" using e52 by (simp add: k_def)
  have ulp: "2 powr of_int (e - 52) = 1 / (2::real) ^ k"
    unfolding k by (rule powr_neg_nat)
  have "x / (1 / 2 ^ k) = of_int (n * 2 ^ k)" by (simp add: n)
  then have r: "roundEven (x / (1 / 2 ^ k)) = n * 2 ^ k"
    using roundEven_of_int [of "n * 2 ^ k"] by simp
  show ?thesis
    using False unfolding binary64_def Let_def ex ulp r
    by (simp add: n)
qed

lemma binary64_one: "binary64 1 = 1"
  by (simp add: binary64_int)

text \<open>Powers of two are binary64 values.\<close>

lemma binary64_power: "binary64 (2 ^ n) = 2 ^ n"
proof -
  have "roundEven (2 ^ 52) = 2 ^ 52"
    using roundEven_of_int [of "2 ^ 52"] by simp
  then show ?thesis
    using binary64_big [where x = "2 ^ n" and k = n] by simp
qed

lemma binary64_inverse_power:
  assumes "n \<le> 1022"
  shows "binary64 (1 / 2 ^ n) = 1 / 2 ^ n"
proof -
  have "roundEven (2 ^ 52) = 2 ^ 52"
    using roundEven_of_int [of "2 ^ 52"] by simp
  then show ?thesis
    using binary64_small [where x = "1 / 2 ^ n" and k = n] assms by (simp add: power_add)
qed

text \<open>Rounding to a number: finite, or an infinity beyond the range.\<close>

lemma huge_pos: "0 < huge"
  by (simp add: huge_def)

lemma binary64_huge: "binary64 huge = huge"
  unfolding huge_def by (rule binary64_power)

lemma round64_not_NaN: "round64 x \<noteq> NaN"
  by (simp add: round64_def Let_def)

lemma round64_cases:
  "round64 x = Finite (binary64 x) \<and> \<bar>binary64 x\<bar> < huge
   \<or> round64 x = PosInf \<and> huge \<le> binary64 x
   \<or> round64 x = NegInf \<and> binary64 x \<le> - huge"
  using huge_pos by (auto simp: round64_def Let_def)


lemma binary64_abs_le:
  assumes "\<bar>x\<bar> \<le> y" "binary64 y = y"
  shows "\<bar>binary64 x\<bar> \<le> y"
proof -
  have "binary64 x \<le> y" using binary64_mono [of x y] assms by simp
  moreover have "binary64 (- y) \<le> binary64 x" using assms(1) by (intro binary64_mono) simp
  ultimately show ?thesis using assms(2) by (simp add: binary64_minus abs_le_iff)
qed

lemma round64_finite:
  assumes "\<bar>x\<bar> \<le> 2 ^ 1023"
  shows "round64 x = Finite (binary64 x)"
proof -
  have "\<bar>binary64 x\<bar> \<le> 2 ^ 1023"
    using assms by (rule binary64_abs_le) (rule binary64_power)
  moreover have "(2::real) ^ 1023 < huge" unfolding huge_def by simp
  ultimately have "\<bar>binary64 x\<bar> < huge" by linarith
  then show ?thesis by (auto simp: round64_def Let_def)
qed

lemma round64_int:
  assumes "x \<in> \<int>" "\<bar>x\<bar> < 2 ^ 53"
  shows "round64 x = Finite x"
proof -
  have "(2::real) ^ 53 \<le> 2 ^ 1023" by simp
  then have "\<bar>x\<bar> \<le> 2 ^ 1023" using assms(2) by linarith
  then show ?thesis by (simp add: round64_finite binary64_int [OF assms])
qed

lemma round64_overflow:
  assumes "huge \<le> x"
  shows "round64 x = PosInf"
proof -
  have "binary64 huge \<le> binary64 x" using assms by (rule binary64_mono)
  then show ?thesis by (simp add: round64_def Let_def binary64_huge)
qed

text \<open>A fraction and the half of a number that is not negative lie between 0 and the
  number.\<close>

lemma binary64_eighth: "binary64 (1 / 8) = 1 / 8"
  using binary64_inverse_power [of 3] by simp

lemma round64_fraction:
  assumes "1 / 8 \<le> c" "c \<le> 1"
  shows "round64 c = Finite (binary64 c)" "1 / 8 \<le> binary64 c" "binary64 c \<le> 1"
proof -
  have "\<bar>c\<bar> \<le> 2 ^ 1023" using assms by (simp add: abs_if order_trans [of c 1 "2 ^ 1023"])
  then show "round64 c = Finite (binary64 c)" by (rule round64_finite)
  show "1 / 8 \<le> binary64 c"
    using binary64_mono [OF assms(1)] by (simp add: binary64_eighth)
  show "binary64 c \<le> 1"
    using binary64_mono [OF assms(2)] by (simp add: binary64_one)
qed

lemma round64_between:
  assumes "0 \<le> x" "x \<le> v" "binary64 v = v" "\<bar>v\<bar> < huge"
  shows "round64 x = Finite (binary64 x)" "0 \<le> binary64 x" "binary64 x \<le> v"
proof -
  show 0: "0 \<le> binary64 x" using assms(1) by (rule binary64_nonneg)
  show 1: "binary64 x \<le> v" using binary64_mono [OF assms(2)] assms(3) by simp
  from 0 1 assms(4) show "round64 x = Finite (binary64 x)"
    using huge_pos by (auto simp: round64_def Let_def)
qed

lemma num_mul_fraction:
  assumes "isNumber h" "num_le (Finite 0) h" "1 / 8 \<le> c" "c \<le> 1"
  shows "num_le (Finite 0) (num_mul h (round64 c)) \<and> num_le (num_mul h (round64 c)) h"
proof (cases h)
  case (Finite v)
  note c = round64_fraction [OF assms(3,4)]
  have v: "0 \<le> v" "binary64 v = v" "\<bar>v\<bar> < huge" using assms(1,2) by (simp_all add: Finite)
  have "0 \<le> v * binary64 c" using v(1) c(2) by simp
  moreover have "v * binary64 c \<le> v * 1" using v(1) c(3) by (intro mult_left_mono) auto
  ultimately show ?thesis
    using round64_between [of "v * binary64 c" v] v by (simp add: Finite c(1))
next
  case PosInf
  note c = round64_fraction [OF assms(3,4)]
  then show ?thesis by (simp add: PosInf)
next
  case NegInf
  then show ?thesis using assms(2) by simp
next
  case NaN
  then show ?thesis using assms(2) by simp
qed

lemma num_div_half:
  assumes "isNumber w" "num_le (Finite 0) w"
  shows "num_le (Finite 0) (num_div w (Finite 2)) \<and> num_le (num_div w (Finite 2)) w"
proof (cases w)
  case (Finite v)
  have v: "0 \<le> v" "binary64 v = v" "\<bar>v\<bar> < huge" using assms(1,2) by (simp_all add: Finite)
  show ?thesis
    using round64_between [of "v / 2" v] v by (simp add: Finite)
next
  case PosInf
  then show ?thesis by simp
next
  case NegInf
  then show ?thesis using assms(2) by simp
next
  case NaN
  then show ?thesis using assms(2) by simp
qed

lemma num_le_refl: "num_le (Finite 0) w \<Longrightarrow> num_le w w"
  by (cases w) simp_all

section \<open>Maps\<close>

lemma Map_set_fresh: "k \<notin> fst ` set m \<Longrightarrow> Map_set k v m = m @ [(k, v)]"
  unfolding Map_set_def by (induction m) auto

lemma Map_sets_append: "distinct (map fst (m @ kvs)) \<Longrightarrow> Map_sets m kvs = m @ kvs"
proof (induction kvs arbitrary: m)
  case Nil
  then show ?case by (simp add: Map_sets_def)
next
  case (Cons kv kvs)
  have fresh: "fst kv \<notin> fst ` set m" using Cons.prems by auto
  have "Map_sets m (kv # kvs) = Map_sets (m @ [kv]) kvs"
    using Map_set_fresh [OF fresh, of "snd kv"] by (simp add: Map_sets_def)
  also have "\<dots> = (m @ [kv]) @ kvs"
    using Cons.prems by (intro Cons.IH) auto
  finally show ?case by simp
qed

lemma Map_sets_distinct: "distinct (map fst kvs) \<Longrightarrow> Map_sets [] kvs = kvs"
  using Map_sets_append [of "[]" kvs] by simp


lemma find_Some_set: "List.find P xs = Some x \<Longrightarrow> x \<in> set xs \<and> P x"
  by (induction xs) (auto split: if_splits)

lemma set_Map_set: "set (Map_set k v m) \<subseteq> insert (k, v) (set m)"
  unfolding Map_set_def by (induction m) auto

lemma set_Map_sets: "set (Map_sets m kvs) \<subseteq> set m \<union> set kvs"
proof (induction kvs arbitrary: m)
  case Nil
  then show ?case by (simp add: Map_sets_def)
next
  case (Cons kv kvs)
  have "Map_sets m (kv # kvs) = Map_sets (Map_set (fst kv) (snd kv) m) kvs"
    by (simp add: Map_sets_def)
  then have "set (Map_sets m (kv # kvs)) \<subseteq> set (Map_set (fst kv) (snd kv) m) \<union> set kvs"
    using Cons.IH by simp
  also have "\<dots> \<subseteq> insert kv (set m) \<union> set kvs"
    using set_Map_set [of "fst kv" "snd kv" m] by auto
  finally show ?case by auto
qed


section \<open>Pin table\<close>

lemma getComponentPinPositions_cases:
  "getComponentPinPositions lower n w h \<in>
    {[(js ''VIN'', (Finite 0, num_mul h (round64 0.2))), (js ''GND'', (Finite 0, num_mul h (round64 0.4))),
      (js ''5V'', (Finite 0, num_mul h (round64 0.3))), (js ''3.3V'', (Finite 0, num_mul h (round64 0.35))),
      (js ''D13'', (w, num_mul h (round64 0.3))), (js ''D12'', (w, num_mul h (round64 0.4))),
      (js ''D11'', (w, num_mul h (round64 0.5))), (js ''D10'', (w, num_mul h (round64 0.6))),
      (js ''A0'', (w, num_mul h (round64 0.7))), (js ''A1'', (w, num_mul h (round64 0.8)))],
     [(js ''Anode'', (num_div w (Finite 2), Finite 0)), (js ''+'', (num_div w (Finite 2), Finite 0)),
      (js ''Cathode'', (num_div w (Finite 2), h)), (js ''-'', (num_div w (Finite 2), h))],
     [(js ''A'', (Finite 0, num_div h (Finite 2))), (js ''B'', (w, num_div h (Finite 2))),
      (js ''1'', (Finite 0, num_div h (Finite 2))), (js ''2'', (w, num_div h (Finite 2)))],
     [(js ''+'', (num_div w (Finite 2), Finite 0)), (js ''positive'', (num_div w (Finite 2), Finite 0)),
      (js ''-'', (num_div w (Finite 2), h)), (js ''negative'', (num_div w (Finite 2), h))],
     [(js ''VCC'', (Finite 0, num_mul h (round64 0.2))), (js ''TRIG'', (Finite 0, num_mul h (round64 0.4))),
      (js ''ECHO'', (Finite 0, num_mul h (round64 0.6))), (js ''GND'', (Finite 0, num_mul h (round64 0.8)))],
     [(js ''1'', (Finite 0, num_div h (Finite 2))), (js ''2'', (w, num_div h (Finite 2))),
      (js ''A'', (Finite 0, num_div h (Finite 2))), (js ''B'', (w, num_div h (Finite 2)))],
     [(js ''TOP'', (num_div w (Finite 2), Finite 0)), (js ''BOTTOM'', (num_div w (Finite 2), h)),
      (js ''LEFT'', (Finite 0, num_div h (Finite 2))), (js ''RIGHT'', (w, num_div h (Finite 2)))]}"
  unfolding getComponentPinPositions_def Let_def
  by (simp add: Map_sets_distinct js_def)


lemma getComponentPinPositions_nonempty: "getComponentPinPositions lower n w h \<noteq> []"
  using getComponentPinPositions_cases [of lower n w h] by auto

text \<open>
  C4: for every component name and every width and height that are numbers of the
  program and not negative (finite or infinite), \<open>getComponentPinPositions\<close> returns a
  non-empty table of pins, and every pin lies in the rectangle from \<open>(0, 0)\<close> to
  \<open>(width, height)\<close>. The name is arbitrary, so this covers the six recognised classes
  and the generic fallback (\<open>getComponentPinPositions_cases\<close> lists the seven tables).
\<close>

theorem getComponentPinPositions_in_bounds:
  assumes "isNumber width" "isNumber height"
    and "num_le (Finite 0) width" "num_le (Finite 0) height"
  shows "getComponentPinPositions lower componentName width height \<noteq> [] \<and>
   list_all (\<lambda>(pin, (x, y)).
       num_le (Finite 0) x \<and> num_le x width \<and> num_le (Finite 0) y \<and> num_le y height)
     (getComponentPinPositions lower componentName width height)"
proof -
  have frac: "num_le (Finite 0) (num_mul height (round64 c))
      \<and> num_le (num_mul height (round64 c)) height"
    if "1 / 8 \<le> c" "c \<le> 1" for c
    using num_mul_fraction [OF assms(2,4) that] .
  note f = frac [of "0.2", simplified] frac [of "0.3", simplified] frac [of "0.35", simplified]
    frac [of "0.4", simplified] frac [of "0.5", simplified] frac [of "0.6", simplified]
    frac [of "0.7", simplified] frac [of "0.8", simplified]
  note hw = num_div_half [OF assms(1,3)]
  note hh = num_div_half [OF assms(2,4)]
  note r = num_le_refl [OF assms(3)] num_le_refl [OF assms(4)]
  show ?thesis
    using getComponentPinPositions_cases [of lower componentName width height] assms(3,4) f hw hh r
    by (elim insertE) simp_all
qed

theorem getComponentPinPositions_in_bounds_witness:
  "isNumber (Finite 150) \<and> num_le (Finite 0) (Finite 150)
   \<and> getComponentPinPositions (\<lambda>s. s) (js ''LED (Red)'') (Finite 150) (Finite 150) \<noteq> [] \<and>
   list_all (\<lambda>(pin, (x, y)).
       num_le (Finite 0) x \<and> num_le x (Finite 150) \<and> num_le (Finite 0) y \<and> num_le y (Finite 150))
     (getComponentPinPositions (\<lambda>s. s) (js ''LED (Red)'') (Finite 150) (Finite 150))"
proof -
  have d: "isNumber (Finite 150)" by (simp add: binary64_int huge_def)
  have z: "num_le (Finite 0) (Finite 150)" by simp
  show ?thesis
    using getComponentPinPositions_in_bounds
      [where lower = "\<lambda>s. s" and componentName = "js ''LED (Red)''", OF d d z z] d z by simp
qed

section \<open>Wire colour\<close>

text \<open>
  C2: \<open>getWireColor\<close> is the first-match-wins rule list of the specification on the
  lowercased text: power keywords give red, else ground keywords black, else signal
  keywords yellow, else the digital pin pattern green, else the analog pin pattern blue,
  else gray. In particular a text with a ground keyword and a digital pin pattern but no
  power keyword is black, not green.
\<close>

theorem getWireColor_priority:
  "getWireColor lower connection = firstMatch colorRules (js ''#888888'') (toLowerCase lower connection)
   \<and> (hasGroundKeyword (toLowerCase lower connection) \<and> matchLetterDigits 100 (toLowerCase lower connection)
        \<and> \<not> hasPowerKeyword (toLowerCase lower connection)
      \<longrightarrow> getWireColor lower connection = js ''#000000'')"
  by (simp add: getWireColor_def colorRules_def hasPowerKeyword_def hasGroundKeyword_def
      hasSignalKeyword_def Let_def)

theorem getWireColor_priority_witness: "getWireColor (\<lambda>s. s) (js ''Arduino D13 '' @ [arrow] @ js '' Battery -'') = js ''#000000''
  \<and> hasGroundKeyword (toLowerCase (\<lambda>s. s) (js ''Arduino D13 '' @ [arrow] @ js '' Battery -''))
  \<and> matchLetterDigits 100 (toLowerCase (\<lambda>s. s) (js ''Arduino D13 '' @ [arrow] @ js '' Battery -''))
  \<and> \<not> hasPowerKeyword (toLowerCase (\<lambda>s. s) (js ''Arduino D13 '' @ [arrow] @ js '' Battery -''))"
proof -
  let ?c = "js ''Arduino D13 '' @ [arrow] @ js '' Battery -''"
  have lc: "toLowerCase (\<lambda>s. s) ?c = js ''arduino d13 '' @ [arrow] @ js '' battery -''"
    by (simp add: js_def arrow_def toLowerCase_def toLowerCase_unit_def)
  have g: "hasGroundKeyword (toLowerCase (\<lambda>s. s) ?c)"
    unfolding lc by (simp add: hasGroundKeyword_def js_def arrow_def)
  have d: "matchLetterDigits 100 (toLowerCase (\<lambda>s. s) ?c)"
    unfolding lc by (simp add: js_def arrow_def canonicalize_def isDigit_def)
  have p: "\<not> hasPowerKeyword (toLowerCase (\<lambda>s. s) ?c)"
    unfolding lc by (simp add: hasPowerKeyword_def js_def arrow_def)
  from getWireColor_priority [of "\<lambda>s. s" ?c] g d p have "getWireColor (\<lambda>s. s) ?c = js ''#000000''"
    by blast
  with g d p show ?thesis by blast
qed


section \<open>Normalisation of oversized artwork\<close>
































text \<open>
  What \<open>parseSVG\<close> reads from a \<open>viewBox\<close>: the pattern \<open>[, , , w, h]\<close> skips three
  elements, so the width is the fourth number of the \<open>viewBox\<close> (its height) and the
  height is the default. The statement below leaves artwork with a \<open>viewBox\<close> out.
\<close>

lemma svgDimensions_viewBox:
  "svgDimensions other (js ''<svg viewBox=\"0 0 300 100\">'') = (Finite 100, Finite 150)"
  by (simp add: svgDimensions_def js_def viewBoxAt_def isQuote_def isDigit_def isWhiteSpace_def
      parseFloat_def orDefault_def round64_int)







section \<open>Connection points\<close>

lemma findConnectionPoint_entry:
  "findConnectionPoint lower other pointStr layout = Inr (Some pt) \<Longrightarrow>
   \<exists>componentName layoutData entry.
     (componentName, layoutData) \<in> set layout \<and> entry \<in> set (l_absolutePins layoutData)
     \<and> foundMatch lower pointStr componentName
     \<and> pt = connectionPoint componentName entry"
proof (induction layout)
  case Nil
  then show ?case by simp
next
  case (Cons a layout)
  obtain c d where a: "a = (c, d)" by (cases a)
  show ?case
  proof (cases "foundMatch lower pointStr c")
    case False
    with Cons.prems have "findConnectionPoint lower other pointStr layout = Inr (Some pt)"
      by (simp add: a)
    from Cons.IH [OF this] obtain c' d' e' where
      "(c', d') \<in> set layout" "e' \<in> set (l_absolutePins d')" "foundMatch lower pointStr c'"
      "pt = connectionPoint c' e'" by blast
    then show ?thesis
      by (intro exI [of _ c'] exI [of _ d'] exI [of _ e']) simp
  next
    case True
    show ?thesis
    proof (cases "extractPinName other pointStr c")
      case (Inl e)
      with True Cons.prems show ?thesis by (simp add: a)
    next
      case (Inr pinName)
      show ?thesis
      proof (cases "List.find (\<lambda>entry. pinNameMatches lower pinName (fst entry)) (l_absolutePins d)")
        case (Some entry)
        with True Inr Cons.prems have "pt = connectionPoint c entry" by (simp add: a)
        moreover have "entry \<in> set (l_absolutePins d)" using find_Some_set [OF Some] by simp
        ultimately show ?thesis using True
          by (intro exI [of _ c] exI [of _ d] exI [of _ entry]) (simp add: a)
      next
        case n1: None
        show ?thesis
        proof (cases "List.find (\<lambda>entry. pinDigitsMatch pinName (fst entry)) (l_absolutePins d)")
          case (Some entry)
          with True Inr n1 Cons.prems have "pt = connectionPoint c entry" by (simp add: a)
          moreover have "entry \<in> set (l_absolutePins d)" using find_Some_set [OF Some] by simp
          ultimately show ?thesis using True
            by (intro exI [of _ c] exI [of _ d] exI [of _ entry]) (simp add: a)
        next
          case n2: None
          show ?thesis
          proof (cases "l_absolutePins d")
            case Nil
            with True Inr n1 n2 Cons.prems
            have "findConnectionPoint lower other pointStr layout = Inr (Some pt)" by (simp add: a)
            from Cons.IH [OF this] obtain c' d' e' where
              "(c', d') \<in> set layout" "e' \<in> set (l_absolutePins d')" "foundMatch lower pointStr c'"
              "pt = connectionPoint c' e'" by blast
            then show ?thesis
              by (intro exI [of _ c'] exI [of _ d'] exI [of _ e']) simp
          next
            case (Cons firstPin others)
            with True Inr n1 n2 Cons.prems have "pt = connectionPoint c firstPin" by (simp add: a)
            then show ?thesis using True Cons
              by (intro exI [of _ c] exI [of _ d] exI [of _ firstPin]) (simp add: a)
          qed
        qed
      qed
    qed
  qed
qed

lemma calculateAbsolutePins_entry:
  assumes "(pin, pos) \<in> set (calculateAbsolutePins pins offsetX offsetY)"
  shows "\<exists>local. (pin, local) \<in> set pins
    \<and> pos = (num_add offsetX (fst local), num_add offsetY (snd local))"
proof -
  let ?kvs = "map (\<lambda>(pinName, position).
        (pinName, (num_add offsetX (fst position), num_add offsetY (snd position)))) pins"
  have "set (Map_sets [] ?kvs) \<subseteq> set ?kvs"
    using set_Map_sets [of "[]" ?kvs] by simp
  with assms have "(pin, pos) \<in> set ?kvs"
    unfolding calculateAbsolutePins_def by blast
  then show ?thesis by fastforce
qed

lemma placeOthers_placed:
  "list_all placed (fst st) \<Longrightarrow>
   list_all placed (fst (placeOthers loadedComponents arduinoComponent currentY used st))"
proof (induction used arbitrary: st)
  case Nil
  then show ?case by simp
next
  case (Cons componentName used)
  obtain layout currentX row where st: "st = (layout, currentX, row)" by (cases st)
  have step: "list_all placed (Map_set componentName
        \<lparr>l_component = componentData, l_x = currentX, l_y = yy,
         l_absolutePins = calculateAbsolutePins (c_pins componentData) currentX yy\<rparr> layout)"
    for componentData yy
    using Cons.prems set_Map_set [of componentName _ layout]
    unfolding st list_all_iff by (fastforce simp: placed_def)
  show ?case
  proof (cases "Some componentName = arduinoComponent")
    case True
    then show ?thesis using Cons.prems by (simp add: st Cons.IH)
  next
    case False
    show ?thesis
    proof (cases "Map_get loadedComponents componentName")
      case None
      then show ?thesis using False Cons.prems by (simp add: st Cons.IH)
    next
      case (Some componentData)
      show ?thesis
        using False Some step [of componentData]
        by (simp add: st Let_def Cons.IH)
    qed
  qed
qed

lemma layoutComponents_placed:
  "list_all placed (layoutComponents lower loadedComponents componentsUsed)"
  unfolding layoutComponents_def Let_def
  by (auto split: option.splits prod.splits intro!: placeOthers_placed
      simp: Map_set_def placed_def)

lemma distinct_Map_set: "distinct (map fst m) \<Longrightarrow> distinct (map fst (Map_set k v m))"
  unfolding Map_set_def by (rule distinct_update)

lemma placeOthers_distinct:
  "distinct (map fst (fst st)) \<Longrightarrow>
   distinct (map fst (fst (placeOthers loadedComponents arduinoComponent currentY used st)))"
proof (induction used arbitrary: st)
  case Nil
  then show ?case by simp
next
  case (Cons componentName used)
  obtain layout currentX row where st: "st = (layout, currentX, row)" by (cases st)
  have d: "distinct (map fst layout)" using Cons.prems by (simp add: st)
  show ?case
  proof (cases "Some componentName = arduinoComponent")
    case True
    then show ?thesis using d by (simp add: st Cons.IH)
  next
    case False
    show ?thesis
    proof (cases "Map_get loadedComponents componentName")
      case None
      then show ?thesis using False d by (simp add: st Cons.IH)
    next
      case (Some componentData)
      show ?thesis
        using False Some distinct_Map_set [OF d, of componentName]
        by (simp add: st Let_def Cons.IH)
    qed
  qed
qed

lemma layoutComponents_distinct:
  "distinct (map fst (layoutComponents lower loadedComponents componentsUsed))"
  unfolding layoutComponents_def Let_def
  by (auto split: option.splits prod.splits intro!: placeOthers_distinct simp: Map_set_def)

lemma Map_get_member: "distinct (map fst m) \<Longrightarrow> (k, v) \<in> set m \<Longrightarrow> Map_get m k = Some v"
  unfolding Map_get_def by simp

text \<open>
  C10: on a layout built by \<open>layoutComponents\<close>, a point that \<open>findConnectionPoint\<close>
  returns names an entry of the layout and a pin of that entry's absolute pin table with
  exactly the returned coordinates; that table is \<open>calculateAbsolutePins\<close> of the
  component's own pins, so the coordinates are the placement offset plus the local
  coordinates of a pin of that name, as the operator \<open>+\<close> adds them.
\<close>

theorem findConnectionPoint_sound:
  assumes "findConnectionPoint lower other pointStr (layoutComponents lower loadedComponents componentsUsed)
      = Inr (Some pt)"
  shows "\<exists>layoutData local.
      Map_get (layoutComponents lower loadedComponents componentsUsed) (p_component pt) = Some layoutData
    \<and> (p_component pt, layoutData) \<in> set (layoutComponents lower loadedComponents componentsUsed)
    \<and> (p_pin pt, (p_x pt, p_y pt)) \<in> set (l_absolutePins layoutData)
    \<and> l_absolutePins layoutData =
        calculateAbsolutePins (c_pins (l_component layoutData)) (l_x layoutData) (l_y layoutData)
    \<and> (p_pin pt, local) \<in> set (c_pins (l_component layoutData))
    \<and> p_x pt = num_add (l_x layoutData) (fst local)
    \<and> p_y pt = num_add (l_y layoutData) (snd local)"
proof -
  from findConnectionPoint_entry [OF assms] obtain componentName layoutData entry where
    mem: "(componentName, layoutData) \<in> set (layoutComponents lower loadedComponents componentsUsed)"
    and entry: "entry \<in> set (l_absolutePins layoutData)"
    and pt: "pt = connectionPoint componentName entry"
    by blast
  from layoutComponents_placed [of lower loadedComponents componentsUsed] mem
  have abs: "l_absolutePins layoutData =
      calculateAbsolutePins (c_pins (l_component layoutData)) (l_x layoutData) (l_y layoutData)"
    unfolding list_all_iff placed_def by auto
  obtain pin pos where e: "entry = (pin, pos)" by (cases entry)
  from entry abs have "(pin, pos) \<in> set (calculateAbsolutePins (c_pins (l_component layoutData))
      (l_x layoutData) (l_y layoutData))" by (simp add: e)
  from calculateAbsolutePins_entry [OF this] obtain local where
    local: "(pin, local) \<in> set (c_pins (l_component layoutData))"
    and pos: "pos = (num_add (l_x layoutData) (fst local), num_add (l_y layoutData) (snd local))"
    by blast
  have get: "Map_get (layoutComponents lower loadedComponents componentsUsed) componentName
      = Some layoutData"
    using layoutComponents_distinct mem by (rule Map_get_member)
  show ?thesis
    using get mem entry abs local pos
    by (intro exI [of _ layoutData] exI [of _ local]) (simp add: pt e connectionPoint_def)
qed

text \<open>An example: one battery with empty artwork, and the endpoint \<open>Battery +\<close>.\<close>

lemma example_battery:
  "parseSVG lower (\<lambda>s. NaN) (js ''Battery'') [] =
     \<lparr>c_name = js ''Battery'', c_svgContent = [], c_width = Finite 150, c_height = Finite 150,
      c_pins = [(js ''+'', (Finite 75, Finite 0)), (js ''positive'', (Finite 75, Finite 0)), (js ''-'', (Finite 75, Finite 150)),
                (js ''negative'', (Finite 75, Finite 150))]\<rparr>"
  by (simp add: parseSVG_def svgDimensions_def MAX_WIDTH_def MAX_HEIGHT_def
      getComponentPinPositions_def js_def toLowerCase_def toLowerCase_unit_def
      Map_sets_def Map_set_def viewBoxAt_def attrAt_def orDefault_def round64_int)

lemma example_layout:
  "layoutComponents lower [(js ''Battery'', parseSVG lower (\<lambda>s. NaN) (js ''Battery'') [])] [js ''Battery''] =
     [(js ''Battery'',
       \<lparr>l_component = parseSVG lower (\<lambda>s. NaN) (js ''Battery'') [], l_x = Finite 150, l_y = Finite 200,
        l_absolutePins = [(js ''+'', (Finite 225, Finite 200)), (js ''positive'', (Finite 225, Finite 200)),
                          (js ''-'', (Finite 225, Finite 350)), (js ''negative'', (Finite 225, Finite 350))]\<rparr>)]"
proof -
  have pins: "calculateAbsolutePins
      (c_pins (parseSVG lower (\<lambda>s. NaN) (js ''Battery'') [])) (Finite 150) (Finite 200)
    = [(js ''+'', (Finite 225, Finite 200)), (js ''positive'', (Finite 225, Finite 200)),
       (js ''-'', (Finite 225, Finite 350)), (js ''negative'', (Finite 225, Finite 350))]"
    unfolding example_battery
    by (simp add: calculateAbsolutePins_def Map_sets_def Map_set_def js_def round64_int)
  have arduino: "List.find (\<lambda>c. includes_str (toLowerCase lower c) (js ''arduino'')) [js ''Battery'']
      = None"
    by (simp add: js_def toLowerCase_def toLowerCase_unit_def)
  show ?thesis
    unfolding layoutComponents_def arduino
    by (simp add: Let_def pins Map_get_def Map_set_def spacingY_def round64_int)
qed

lemma example_foundMatch: "foundMatch lower (js ''Battery +'') (js ''Battery'')"
  by (simp add: foundMatch_def js_def toLowerCase_def toLowerCase_unit_def)

lemma example_extractPinName:
  "extractPinName (\<lambda>p s. Inr s) (js ''Battery +'') (js ''Battery'') = Inr (js ''+'')"
  by (simp add: extractPinName_def RegExp_replace_gi_def plainPattern_def isSyntaxCharacter_def
      js_def canonicalize_def trim_def isWhiteSpace_def)

lemma example_pinNameMatches: "pinNameMatches lower (js ''+'') (js ''+'')"
  by (simp add: pinNameMatches_def)

lemma example_findConnectionPoint:
  "findConnectionPoint lower (\<lambda>p s. Inr s) (js ''Battery +'')
      (layoutComponents lower [(js ''Battery'', parseSVG lower (\<lambda>s. NaN) (js ''Battery'') [])]
         [js ''Battery''])
    = Inr (Some \<lparr>p_component = js ''Battery'', p_pin = js ''+'', p_x = Finite 225, p_y = Finite 200\<rparr>)"
  unfolding example_layout
  by (simp add: example_foundMatch example_extractPinName example_pinNameMatches
      connectionPoint_def)

theorem findConnectionPoint_sound_witness:
  "findConnectionPoint (\<lambda>s. s) (\<lambda>p s. Inr s) (js ''Battery +'')
      (layoutComponents (\<lambda>s. s) [(js ''Battery'', parseSVG (\<lambda>s. s) (\<lambda>s. NaN) (js ''Battery'') [])]
         [js ''Battery''])
    = Inr (Some \<lparr>p_component = js ''Battery'', p_pin = js ''+'', p_x = Finite 225, p_y = Finite 200\<rparr>)
   \<and> (\<exists>layoutData local.
        Map_get (layoutComponents (\<lambda>s. s) [(js ''Battery'', parseSVG (\<lambda>s. s) (\<lambda>s. NaN) (js ''Battery'') [])]
                   [js ''Battery'']) (js ''Battery'') = Some layoutData
      \<and> (js ''Battery'', layoutData) \<in>
          set (layoutComponents (\<lambda>s. s) [(js ''Battery'', parseSVG (\<lambda>s. s) (\<lambda>s. NaN) (js ''Battery'') [])]
                 [js ''Battery''])
      \<and> (js ''+'', (Finite 225, Finite 200)) \<in> set (l_absolutePins layoutData)
      \<and> l_absolutePins layoutData =
          calculateAbsolutePins (c_pins (l_component layoutData)) (l_x layoutData)
            (l_y layoutData)
      \<and> (js ''+'', local) \<in> set (c_pins (l_component layoutData))
      \<and> Finite 225 = num_add (l_x layoutData) (fst local)
      \<and> Finite 200 = num_add (l_y layoutData) (snd local))"
  using findConnectionPoint_sound [OF example_findConnectionPoint] example_findConnectionPoint
  by simp

lemma Map_set_nonempty: "Map_set k v m \<noteq> []"
  unfolding Map_set_def by (cases m) auto

lemma Map_sets_nonempty: "m \<noteq> [] \<or> kvs \<noteq> [] \<Longrightarrow> Map_sets m kvs \<noteq> []"
proof (induction kvs arbitrary: m)
  case Nil
  then show ?case by (simp add: Map_sets_def)
next
  case (Cons kv kvs)
  have "Map_sets m (kv # kvs) = Map_sets (Map_set (fst kv) (snd kv) m) kvs"
    by (simp add: Map_sets_def)
  then show ?case using Cons.IH [of "Map_set (fst kv) (snd kv) m"] Map_set_nonempty by metis
qed

lemma calculateAbsolutePins_nonempty:
  "pins \<noteq> [] \<Longrightarrow> calculateAbsolutePins pins offsetX offsetY \<noteq> []"
  unfolding calculateAbsolutePins_def by (rule Map_sets_nonempty) simp

lemma parseSVG_pins_nonempty: "c_pins (parseSVG lower other componentName svgContent) \<noteq> []"
  unfolding parseSVG_def Let_def
  by (auto split: prod.splits simp: getComponentPinPositions_nonempty intro!: Map_sets_nonempty)

lemma layoutComponents_pins_nonempty:
  assumes "list_all (\<lambda>e. c_pins (snd e) \<noteq> []) loadedComponents"
  shows "list_all (\<lambda>e. l_absolutePins (snd e) \<noteq> []) (layoutComponents lower loadedComponents componentsUsed)"
proof -
  have get: "Map_get loadedComponents k = Some c \<Longrightarrow> c_pins c \<noteq> []" for k c
    using assms unfolding Map_get_def list_all_iff by (auto dest!: map_of_SomeD)
  have step: "list_all (\<lambda>e. l_absolutePins (snd e) \<noteq> []) layout \<Longrightarrow> c_pins c \<noteq> [] \<Longrightarrow>
     list_all (\<lambda>e. l_absolutePins (snd e) \<noteq> [])
       (Map_set k \<lparr>l_component = c, l_x = xx, l_y = yy,
          l_absolutePins = calculateAbsolutePins (c_pins c) xx yy\<rparr> layout)" for layout k c xx yy
    using set_Map_set [of k _ layout] calculateAbsolutePins_nonempty [of "c_pins c" xx yy]
    unfolding list_all_iff by fastforce
  have loop: "list_all (\<lambda>e. l_absolutePins (snd e) \<noteq> []) (fst st) \<Longrightarrow>
     list_all (\<lambda>e. l_absolutePins (snd e) \<noteq> [])
       (fst (placeOthers loadedComponents a currentY used st))" for st a currentY used
  proof (induction used arbitrary: st)
    case Nil
    then show ?case by simp
  next
    case (Cons componentName used)
    obtain layout currentX row where st: "st = (layout, currentX, row)" by (cases st)
    have l: "list_all (\<lambda>e. l_absolutePins (snd e) \<noteq> []) layout" using Cons.prems by (simp add: st)
    show ?case
    proof (cases "Some componentName = a")
      case True
      then show ?thesis using l by (simp add: st Cons.IH)
    next
      case False
      show ?thesis
      proof (cases "Map_get loadedComponents componentName")
        case None
        then show ?thesis using False l by (simp add: st Cons.IH)
      next
        case (Some c)
        show ?thesis
          using False Some step [OF l get [OF Some], of componentName]
          by (simp add: st Let_def Cons.IH)
      qed
    qed
  qed
  show ?thesis
  proof (cases "List.find (\<lambda>c. includes_str (toLowerCase lower c) (js ''arduino'')) componentsUsed")
    case None
    then show ?thesis
      unfolding layoutComponents_def Let_def by (simp add: loop)
  next
    case (Some a)
    show ?thesis
    proof (cases "Map_get loadedComponents a")
      case None
      then show ?thesis
        unfolding layoutComponents_def Let_def by (simp add: Some loop)
    next
      case found: (Some c)
      have "list_all (\<lambda>e. l_absolutePins (snd e) \<noteq> [])
          (Map_set a \<lparr>l_component = c, l_x = Finite 150, l_y = Finite 200,
            l_absolutePins = calculateAbsolutePins (c_pins c) (Finite 150) (Finite 200)\<rparr> [])"
        by (rule step) (simp_all add: get [OF found])
      then show ?thesis
        unfolding layoutComponents_def Let_def by (simp add: Some found loop)
    qed
  qed
qed

lemma find_None_iff_list_all: "List.find P xs = None \<longleftrightarrow> list_all (\<lambda>x. \<not> P x) xs"
  by (induction xs) auto

text \<open>
  C5: let \<open>componentName\<close> be the first entry of the layout, in insertion order, that the
  endpoint description matches by one of the three strategies (\<open>foundMatch\<close>), let the
  chain of replacements give the pin name \<open>pinName\<close>, and let no pin of that entry match
  it, neither by equality or substring in either direction (\<open>pinNameMatches\<close>) nor by
  the digit groups (\<open>pinDigitsMatch\<close>). Then \<open>findConnectionPoint\<close> does not return
  \<open>null\<close>: it returns the first pin of the entry's pin table with its absolute
  coordinates.
\<close>

theorem findConnectionPoint_fallback:
  assumes first: "List.find (\<lambda>(c, d). foundMatch lower pointStr c) layout = Some (componentName, layoutData)"
    and pinName: "extractPinName other pointStr componentName = Inr pinName"
    and nomatch: "list_all (\<lambda>(pin, position).
        \<not> pinNameMatches lower pinName pin \<and> \<not> pinDigitsMatch pinName pin) (l_absolutePins layoutData)"
    and pins: "l_absolutePins layoutData = firstPin # others"
  shows "findConnectionPoint lower other pointStr layout =
    Inr (Some \<lparr>p_component = componentName, p_pin = fst firstPin,
               p_x = fst (snd firstPin), p_y = snd (snd firstPin)\<rparr>)"
  using first
proof (induction layout)
  case Nil
  then show ?case by simp
next
  case (Cons a layout)
  obtain c d where a: "a = (c, d)" by (cases a)
  show ?case
  proof (cases "foundMatch lower pointStr c")
    case False
    with Cons.prems have "List.find (\<lambda>(c, d). foundMatch lower pointStr c) layout = Some (componentName, layoutData)"
      by (simp add: a)
    from Cons.IH [OF this] False show ?thesis by (simp add: a)
  next
    case True
    with Cons.prems have eq: "c = componentName" "d = layoutData" by (simp_all add: a)
    have n1: "List.find (\<lambda>entry. pinNameMatches lower pinName (fst entry)) (l_absolutePins layoutData) = None"
      using nomatch unfolding find_None_iff_list_all list_all_iff by auto
    have n2: "List.find (\<lambda>entry. pinDigitsMatch pinName (fst entry)) (l_absolutePins layoutData) = None"
      using nomatch unfolding find_None_iff_list_all list_all_iff by auto
    show ?thesis
      using True pinName n1 n2 pins
      by (simp add: a eq connectionPoint_def)
  qed
qed

text \<open>An example: the endpoint \<open>Battery XYZ\<close> on the layout with one battery.\<close>

lemma example2_extractPinName: "extractPinName (\<lambda>p s. Inr s) (js ''Battery XYZ'') (js ''Battery'') = Inr (js ''XYZ'')"
  by (simp add: extractPinName_def RegExp_replace_gi_def plainPattern_def isSyntaxCharacter_def
      js_def canonicalize_def trim_def isWhiteSpace_def)

lemma example2_foundMatch: "foundMatch lower (js ''Battery XYZ'') (js ''Battery'')"
  by (simp add: foundMatch_def js_def toLowerCase_def toLowerCase_unit_def)

lemma example2_no_pin: "list_all (\<lambda>(pin, position).
        \<not> pinNameMatches lower (js ''XYZ'') pin \<and> \<not> pinDigitsMatch (js ''XYZ'') pin)
     [(js ''+'', (Finite 225, Finite 200)), (js ''positive'', (Finite 225, Finite 200)),
                          (js ''-'', (Finite 225, Finite 350)), (js ''negative'', (Finite 225, Finite 350))]"
  by (simp add: pinNameMatches_def pinDigitsMatch_def matchDigits_def isDigit_def js_def
      toLowerCase_def toLowerCase_unit_def)

theorem findConnectionPoint_fallback_witness:
  "findConnectionPoint (\<lambda>s. s) (\<lambda>p s. Inr s) (js ''Battery XYZ'')
      (layoutComponents (\<lambda>s. s) [(js ''Battery'', parseSVG (\<lambda>s. s) (\<lambda>s. NaN) (js ''Battery'') [])]
         [js ''Battery''])
    = Inr (Some \<lparr>p_component = js ''Battery'', p_pin = js ''+'', p_x = Finite 225, p_y = Finite 200\<rparr>)"
proof -
  let ?d = "\<lparr>l_component = parseSVG (\<lambda>s. s) (\<lambda>s. NaN) (js ''Battery'') [], l_x = Finite 150, l_y = Finite 200,
        l_absolutePins = [(js ''+'', (Finite 225, Finite 200)), (js ''positive'', (Finite 225, Finite 200)),
                          (js ''-'', (Finite 225, Finite 350)), (js ''negative'', (Finite 225, Finite 350))]\<rparr>"
  have first: "List.find (\<lambda>(c, d). foundMatch (\<lambda>s. s) (js ''Battery XYZ'') c)
      (layoutComponents (\<lambda>s. s) [(js ''Battery'', parseSVG (\<lambda>s. s) (\<lambda>s. NaN) (js ''Battery'') [])] [js ''Battery''])
    = Some (js ''Battery'', ?d)"
    unfolding example_layout by (simp add: example2_foundMatch)
  have nomatch: "list_all (\<lambda>(pin, position).
        \<not> pinNameMatches (\<lambda>s. s) (js ''XYZ'') pin \<and> \<not> pinDigitsMatch (js ''XYZ'') pin) (l_absolutePins ?d)"
    using example2_no_pin by simp
  have pins: "l_absolutePins ?d = (js ''+'', (Finite 225, Finite 200)) # [(js ''positive'', (Finite 225, Finite 200)),
                          (js ''-'', (Finite 225, Finite 350)), (js ''negative'', (Finite 225, Finite 350))]"
    by simp
  from findConnectionPoint_fallback [OF first example2_extractPinName nomatch pins] show ?thesis by simp
qed

section \<open>Canvas and document\<close>

lemma foldl_append_concat:
  "foldl (\<lambda>svg e. svg @ f e) s xs = s @ concat (map f xs)"
  by (induction xs arbitrary: s) auto

lemma foldl_append_concat_pair:
  "foldl (\<lambda>svg (a, b). svg @ f a b) s xs = s @ concat (map (\<lambda>(a, b). f a b) xs)"
  by (induction xs arbitrary: s) auto

lemma foldl_pinLabels:
  "foldl (\<lambda>svg (componentName, layoutData).
      foldl (\<lambda>svg entry. svg @ pinLabel other entry) svg (l_absolutePins layoutData)) s layout
   = s @ concat (map (\<lambda>(componentName, layoutData).
        concat (map (pinLabel other) (l_absolutePins layoutData))) layout)"
  by (induction layout arbitrary: s) (auto simp: foldl_append_concat)

lemma assembleFinalSVG_eq:
  "assembleFinalSVG other circuitName layout wires =
     svgHeader other (canvasWidth_of layout) (canvasHeight_of layout) circuitName
     @ concat (map (\<lambda>(componentName, layoutData).
          embedComponentSVG other componentName layoutData) layout)
     @ wiresLayerOpen
     @ concat (map (drawWire other) wires)
     @ pinLabelsOpen
     @ concat (map (\<lambda>(componentName, layoutData).
          concat (map (pinLabel other) (l_absolutePins layoutData))) layout)
     @ svgFooter other (canvasWidth_of layout) (canvasHeight_of layout)"
  unfolding assembleFinalSVG_def Let_def
  by (simp only: foldl_append_concat foldl_append_concat_pair foldl_pinLabels append_assoc)

text \<open>NaN passes through \<open>Math.max\<close>, the padding and \<open>Math.min\<close>.\<close>

lemma Math_max_NaN: "Math_max a b = NaN \<longleftrightarrow> a = NaN \<or> b = NaN"
  by (simp add: Math_max_def)

lemma Math_min_NaN: "Math_min a b = NaN \<longleftrightarrow> a = NaN \<or> b = NaN"
  by (simp add: Math_min_def)

lemma num_add_Finite_NaN: "num_add m (Finite c) = NaN \<longleftrightarrow> m = NaN"
  by (cases m) (simp_all add: round64_not_NaN)

lemma foldl_Math_max_NaN:
  "foldl (\<lambda>m (k, d). Math_max m (f d)) z xs = NaN \<longleftrightarrow> z = NaN \<or> (\<exists>(k, d) \<in> set xs. f d = NaN)"
  by (induction xs arbitrary: z) (auto simp: Math_max_NaN)

lemma canvasWidth_of_NaN:
  "canvasWidth_of layout = NaN \<longleftrightarrow>
     (\<exists>(componentName, layoutData) \<in> set layout.
        num_add (l_x layoutData) (c_width (l_component layoutData)) = NaN)"
  unfolding canvasWidth_of_def Let_def
  by (simp add: Math_min_NaN num_add_Finite_NaN foldl_Math_max_NaN)

lemma canvasHeight_of_NaN:
  "canvasHeight_of layout = NaN \<longleftrightarrow>
     (\<exists>(componentName, layoutData) \<in> set layout.
        num_add (l_y layoutData) (c_height (l_component layoutData)) = NaN)"
  unfolding canvasHeight_of_def Let_def
  by (simp add: Math_min_NaN num_add_Finite_NaN foldl_Math_max_NaN)

lemma Math_min_le: "Math_min a (Finite c) \<noteq> NaN \<Longrightarrow> num_le (Math_min a (Finite c)) (Finite c)"
  by (cases a) (auto simp: Math_min_def)

text \<open>Where no right or bottom edge is NaN, the canvas is within the bounds.\<close>

lemma canvas_bounded:
  "canvasWidth_of layout \<noteq> NaN \<Longrightarrow> num_le (canvasWidth_of layout) (Finite 2000)"
  "canvasHeight_of layout \<noteq> NaN \<Longrightarrow> num_le (canvasHeight_of layout) (Finite 1500)"
  unfolding canvasWidth_of_def canvasHeight_of_def Let_def
  by (rule Math_min_le, assumption)+

text \<open>The largest edge: \<open>Math.max\<close> over the placements, from 0, is above every edge and
  is 0 or one of them.\<close>

lemma num_le_Math_max:
  "Math_max a b \<noteq> NaN \<Longrightarrow> num_le a (Math_max a b) \<and> num_le b (Math_max a b)"
  by (cases a; cases b) (auto simp: Math_max_def)

lemma num_le_trans: "num_le a b \<Longrightarrow> num_le b c \<Longrightarrow> num_le a c"
  by (cases a; cases b; cases c) auto

lemma foldl_Math_max_upper:
  assumes "foldl (\<lambda>m (k, d). Math_max m (f d)) z xs \<noteq> NaN"
  shows "num_le z (foldl (\<lambda>m (k, d). Math_max m (f d)) z xs)
    \<and> (\<forall>(k, d) \<in> set xs. num_le (f d) (foldl (\<lambda>m (k, d). Math_max m (f d)) z xs))"
  using assms
proof (induction xs arbitrary: z)
  case Nil
  then show ?case by (cases z) auto
next
  case (Cons a xs)
  obtain k d where a: "a = (k, d)" by (cases a)
  let ?r = "foldl (\<lambda>m (k, d). Math_max m (f d)) (Math_max z (f d)) xs"
  have r: "?r \<noteq> NaN" using Cons.prems by (simp add: a)
  note IH = Cons.IH [OF r]
  have "Math_max z (f d) \<noteq> NaN" using r by (auto simp: foldl_Math_max_NaN)
  from num_le_Math_max [OF this] IH show ?case
    by (auto simp: a intro: num_le_trans)
qed

lemma foldl_Math_max_mem:
  "foldl (\<lambda>m (k, d). Math_max m (f d)) z xs = NaN
   \<or> foldl (\<lambda>m (k, d). Math_max m (f d)) z xs = z
   \<or> (\<exists>(k, d) \<in> set xs. foldl (\<lambda>m (k, d). Math_max m (f d)) z xs = f d)"
proof (induction xs arbitrary: z)
  case Nil
  then show ?case by simp
next
  case (Cons a xs)
  obtain k d where a: "a = (k, d)" by (cases a)
  have "Math_max z (f d) = NaN \<or> Math_max z (f d) = z \<or> Math_max z (f d) = f d"
    by (simp add: Math_max_def)
  then show ?case
    using Cons.IH [of "Math_max z (f d)"]
    by (auto simp: a foldl_Math_max_NaN)
qed

section \<open>Connection lines\<close>

lemma length_split: "length (split s sep) = Suc (count_list s sep)"
  by (induction s) (auto split: list.splits)

lemma parseConnections_loop_eq:
  "list_all (raisesNoError lower other layout) connections \<Longrightarrow>
   parseConnections_loop lower other layout wires connections =
     Inr (wires @ List.map_filter (wireOf lower other layout) connections)"
proof (induction connections arbitrary: wires)
  case Nil
  then show ?case by (simp add: List.map_filter_simps)
next
  case (Cons connection connections)
  then have rest: "list_all (raisesNoError lower other layout) connections"
    and ok: "raisesNoError lower other layout connection" by simp_all
  note IH = Cons.IH [OF rest]
  show ?case
  proof (cases "isWiringLine lower connection")
    case False
    then show ?thesis
      using IH [of wires]
      by (auto simp: isWiringLine_def wireOf_def List.map_filter_simps Let_def)
  next
    case True
    then have kw: "\<not> (includes_str (toLowerCase lower connection) (js ''upload'')
         \<or> includes_str (toLowerCase lower connection) (js ''code'')
         \<or> includes_str (toLowerCase lower connection) (js ''program''))"
      and len: "length (split connection arrow) = 2"
      by (simp_all add: isWiringLine_def)
    have p0: "map trim (split connection arrow) ! 0 = trim (split connection arrow ! 0)"
      and p1: "map trim (split connection arrow) ! 1 = trim (split connection arrow ! 1)"
      using len by simp_all
    from ok True obtain f t where
      f: "findConnectionPoint lower other (trim (split connection arrow ! 0)) layout = Inr f"
      and t: "findConnectionPoint lower other (trim (split connection arrow ! 1)) layout = Inr t"
      by (auto simp: raisesNoError_def split: sum.splits)
    show ?thesis
    proof (cases "\<exists>f' t'. f = Some f' \<and> t = Some t'")
      case True
      then obtain f' t' where ft: "f = Some f'" "t = Some t'" by blast
      have w: "wireOf lower other layout connection =
          Some \<lparr>w_from = f', w_to = t', w_color = getWireColor lower connection, w_label = connection\<rparr>"
        using \<open>isWiringLine lower connection\<close> f t by (simp add: wireOf_def ft)
      show ?thesis
        using kw len IH [of "wires @ [\<lparr>w_from = f', w_to = t', w_color = getWireColor lower connection,
            w_label = connection\<rparr>]"]
        using p0 p1 f t
        by (simp add: Let_def ft w List.map_filter_simps del: nth_map)
    next
      case False
      then have w: "wireOf lower other layout connection = None"
        using \<open>isWiringLine lower connection\<close>
        using f t by (cases f; cases t) (simp_all add: wireOf_def)
      show ?thesis
        using kw len IH [of wires] p0 p1 f t w False
        by (cases f; cases t) (simp_all add: Let_def List.map_filter_simps del: nth_map)
    qed
  qed
qed

lemma parseConnections_eq:
  "list_all (raisesNoError lower other layout) connections \<Longrightarrow>
   parseConnections lower other connections layout = Inr (List.map_filter (wireOf lower other layout) connections)"
  unfolding parseConnections_def by (simp add: parseConnections_loop_eq)

lemma wireOf_iff:
  "wireOf lower other layout connection \<noteq> None \<longleftrightarrow>
     \<not> includes_str (toLowerCase lower connection) (js ''upload'')
   \<and> \<not> includes_str (toLowerCase lower connection) (js ''code'')
   \<and> \<not> includes_str (toLowerCase lower connection) (js ''program'')
   \<and> count_list connection arrow = 1
   \<and> (\<exists>f. findConnectionPoint lower other (trim (split connection arrow ! 0)) layout = Inr (Some f))
   \<and> (\<exists>t. findConnectionPoint lower other (trim (split connection arrow ! 1)) layout = Inr (Some t))"
  by (auto simp: wireOf_def isWiringLine_def length_split split: sum.splits option.splits)

text \<open>On an empty layout nothing resolves and nothing is raised.\<close>

lemma findConnectionPoint_empty: "findConnectionPoint lower other pointStr [] = Inr None"
  by simp

lemma parseConnections_empty_layout: "parseConnections lower other connections [] = Inr []"
proof -
  have "parseConnections_loop lower other [] wires connections = Inr wires" for wires
    by (induction connections arbitrary: wires) (simp_all add: Let_def)
  then show ?thesis by (simp add: parseConnections_def)
qed

text \<open>
  A component label with an unclosed parenthesis, which the name resolver accepts (it
  strips parentheses before it compares the label with the folder names).
\<close>

lemma RegExp_unterminated:
  "RegExp_replace_gi other (js ''LED (Red'') s = Inl SyntaxError"
  by (simp add: RegExp_replace_gi_def plainPattern_def isSyntaxCharacter_def js_def)

lemma bug_layout:
  "layoutComponents lower [(js ''LED (Red'', parseSVG lower (\<lambda>s. NaN) (js ''LED (Red'') [])] [js ''LED (Red'']
   = [(js ''LED (Red'', \<lparr>l_component = parseSVG lower (\<lambda>s. NaN) (js ''LED (Red'') [], l_x = Finite 150, l_y = Finite 200,
        l_absolutePins = calculateAbsolutePins (c_pins (parseSVG lower (\<lambda>s. NaN) (js ''LED (Red'') [])) (Finite 150) (Finite 200)\<rparr>)]"
proof -
  have arduino: "List.find (\<lambda>c. includes_str (toLowerCase lower c) (js ''arduino'')) [js ''LED (Red'']
      = None"
    by (simp add: js_def toLowerCase_def toLowerCase_unit_def)
  show ?thesis
    unfolding layoutComponents_def arduino
    by (simp add: Let_def Map_get_def Map_set_def spacingY_def round64_int)
qed

lemma bug_foundMatch: "foundMatch lower (js ''LED (Red Anode'') (js ''LED (Red'')"
  by (simp add: foundMatch_def js_def toLowerCase_def toLowerCase_unit_def)

lemma bug_parts: "map trim (split (js ''LED (Red Anode '' @ arrow # js '' LED (Red Cathode'') arrow)
   = [js ''LED (Red Anode'', js ''LED (Red Cathode'']"
  by (simp add: js_def arrow_def trim_def isWhiteSpace_def)

lemma bug_keywords: "\<not> includes_str (toLowerCase lower (js ''LED (Red Anode '' @ arrow # js '' LED (Red Cathode'')) (js ''upload'')"
  "\<not> includes_str (toLowerCase lower (js ''LED (Red Anode '' @ arrow # js '' LED (Red Cathode'')) (js ''code'')"
  "\<not> includes_str (toLowerCase lower (js ''LED (Red Anode '' @ arrow # js '' LED (Red Cathode'')) (js ''program'')"
  by (simp_all add: js_def arrow_def toLowerCase_def toLowerCase_unit_def)

text \<open>
  C1: a line emits a wire if and only if it has none of the keywords, exactly one arrow,
  and both endpoints resolve; a line that fails one of these contributes no wire and raises
  no error. That is what \<open>parseConnections_eq\<close> and \<open>wireOf_iff\<close> show as long as
  no endpoint raises. But the component name is used as a regular expression without
  escaping: on the layout with the one component \<open>LED (Red\<close> the line
  \<open>LED (Red Anode -> LED (Red Cathode\<close> (with the arrow) makes \<open>parseConnections\<close>
  raise \<open>SyntaxError\<close>.
\<close>

theorem parseConnections_raises_SyntaxError:
  "parseConnections lower other [js ''LED (Red Anode '' @ arrow # js '' LED (Red Cathode'']
     (layoutComponents lower [(js ''LED (Red'', parseSVG lower (\<lambda>s. NaN) (js ''LED (Red'') [])] [js ''LED (Red''])
   = Inl SyntaxError"
  unfolding bug_layout parseConnections_def
  by (simp add: bug_keywords bug_parts bug_foundMatch extractPinName_def RegExp_unterminated)

section \<open>Escaping\<close>

lemma startsWith_append: "startsWith (t @ b) t"
  by (induction t) auto

lemma includes_str_here: "startsWith s t \<Longrightarrow> includes_str s t"
  by (cases s; cases t) auto

lemma includes_str_append: "includes_str (a @ t @ b) t"
proof (induction a)
  case Nil
  show ?case using includes_str_here [OF startsWith_append [of t b]] by simp
next
  case (Cons c a)
  then show ?case by simp
qed

lemma startsWith_appendI: "startsWith s t \<Longrightarrow> startsWith (s @ r) t"
  by (induction s t rule: startsWith.induct) auto

lemma includes_str_appendI: "includes_str s t \<Longrightarrow> includes_str (s @ r) t"
proof (induction s)
  case Nil
  then show ?case by (cases r) auto
next
  case (Cons c s)
  then show ?case using startsWith_appendI [of "c # s" t r] by auto
qed

lemma replaceUnit_Cons: "replaceUnit c r (d # s) = (if d = c then r else [d]) @ replaceUnit c r s"
  by (simp add: replaceUnit_def)

lemma replaceUnit_Nil: "replaceUnit c r [] = []"
  by (simp add: replaceUnit_def)

lemma replaceUnit_append: "replaceUnit c r (s @ t) = replaceUnit c r s @ replaceUnit c r t"
  by (simp add: replaceUnit_def)

lemma escapeMarkup_Nil: "escapeMarkup [] = []"
  by (simp add: escapeMarkup_def replaceUnit_Nil)

lemma escapeMarkup_append: "escapeMarkup (s @ t) = escapeMarkup s @ escapeMarkup t"
  by (simp add: escapeMarkup_def replaceUnit_append)

lemma escapeMarkup_single: "escapeMarkup [c] = escapeUnit c"
  by (simp add: escapeMarkup_def escapeUnit_def replaceUnit_def js_def omega_def)

lemma escapeMarkup_concat: "escapeMarkup s = concat (map escapeUnit s)"
proof (induction s)
  case Nil
  show ?case by (simp add: escapeMarkup_Nil)
next
  case (Cons c s)
  have "escapeMarkup (c # s) = escapeMarkup [c] @ escapeMarkup s"
    using escapeMarkup_append [of "[c]" s] by simp
  then show ?case by (simp add: escapeMarkup_single Cons.IH)
qed

lemma escapeUnit_safe: "list_all (\<lambda>d. d \<noteq> 60 \<and> d \<noteq> 62 \<and> d \<noteq> 34 \<and> d \<noteq> 39) (escapeUnit c)"
  by (simp add: escapeUnit_def js_def)

lemma escapeMarkup_safe:
  "list_all (\<lambda>d. d \<noteq> 60 \<and> d \<noteq> 62 \<and> d \<noteq> 34 \<and> d \<noteq> 39) (escapeMarkup s)"
  unfolding escapeMarkup_concat
  by (induction s) (simp_all add: escapeUnit_safe)

lemma markupSafe_escapeUnit: "markupSafe s \<Longrightarrow> markupSafe (escapeUnit c @ s)"
  by (simp add: escapeUnit_def js_def referenceAt_def isRefChar_def omega_def)

lemma escapeMarkup_markupSafe: "markupSafe (escapeMarkup s)"
  unfolding escapeMarkup_concat
  by (induction s) (simp_all add: markupSafe_escapeUnit)

lemma title_not_markupSafe: "\<not> markupSafe (js ''R&D'')"
  by (simp add: js_def referenceAt_def isRefChar_def)

lemma drawWire_label:
  "escapeMarkup (w_label wire) = escapeMarkup label' \<Longrightarrow>
   drawWire other (wire\<lparr>w_label := label'\<rparr>) = drawWire other wire"
  by (simp add: drawWire_def)

lemma embedComponentSVG_name:
  "escapeMarkup componentName = escapeMarkup name' \<Longrightarrow> cleanIdOf componentName = cleanIdOf name' \<Longrightarrow>
   embedComponentSVG other name' layoutData = embedComponentSVG other componentName layoutData"
  by (simp add: embedComponentSVG_def)

lemma includes_str_refl: "includes_str s s"
  using includes_str_append [of "[]" s "[]"] by simp

lemma includes_str_prependI: "includes_str s t \<Longrightarrow> includes_str (r @ s) t"
proof (induction r)
  case Nil
  then show ?case by simp
next
  case (Cons c r)
  then show ?case by simp
qed

lemma includes_str_concat:
  "x \<in> set xs \<Longrightarrow> includes_str x t \<Longrightarrow> includes_str (concat xs) t"
proof (induction xs)
  case Nil
  then show ?case by simp
next
  case (Cons y xs)
  show ?case
  proof (cases "x = y")
    case True
    then show ?thesis using Cons.prems by (simp add: includes_str_appendI)
  next
    case False
    then have "includes_str (concat xs) t" using Cons by simp
    then show ?thesis by (simp add: includes_str_prependI)
  qed
qed

lemma numberToString_200: "numberToString other (Finite 200) = js ''200''"
  by (simp add: numberToString_def digitsOf.simps js_def)

lemma numberToString_ints:
  "numberToString other (Finite 250) = js ''250''"
  "numberToString other (Finite 180) = js ''180''"
  "numberToString other (Finite 100) = js ''100''"
  "numberToString other (Finite 130) = js ''130''"
  "numberToString other (Finite 240) = js ''240''"
  by (simp_all add: numberToString_def digitsOf.simps js_def)

lemma canvas_empty: "canvasWidth_of [] = Finite 200" "canvasHeight_of [] = Finite 250"
  by (simp_all add: canvasWidth_of_def canvasHeight_of_def Math_min_def round64_int)

lemma assembleFinalSVG_empty:
  "assembleFinalSVG other circuitName [] [] =
     svgHeader other (Finite 200) (Finite 250) circuitName @ wiresLayerOpen @ pinLabelsOpen @ svgFooter other (Finite 200) (Finite 250)"
  by (simp add: assembleFinalSVG_def canvas_empty Let_def)

lemma svgHeader_title:
  \<open>includes_str (svgHeader other w h circuitName)
     (js ''fill="#333">\<newline>  '' @ circuitName @ js ''\<newline>  </text>'')\<close>
proof -
  have \<open>svgHeader other w h circuitName =
     (concat
        [js ''<?xml version="1.0" encoding="UTF-8"?>\<newline>'',
         js ''<svg width="'',
         numberToString other w,
         js ''" height="'',
         numberToString other h,
         js ''" xmlns="http://www.w3.org/2000/svg">\<newline>'',
         js ''  \<newline>'',
         js ''  <!-- Background -->\<newline>'',
         js ''  <rect width="100%" height="100%" fill="#FAFAFA"/>\<newline>'',
         js ''  \<newline>'',
         js ''  <!-- Grid Pattern -->\<newline>'',
         js ''  <defs>\<newline>'',
         js ''    <pattern id="grid" width="20" height="20" patternUnits="userSpaceOnUse">\<newline>'',
         js ''      <path d="M 20 0 L 0 0 0 20" fill="none" stroke="#E0E0E0" stroke-width="0.5"/>\<newline>'',
         js ''    </pattern>\<newline>'',
         js ''  </defs>\<newline>'',
         js ''  <rect width="100%" height="100%" fill="url(#grid)"/>\<newline>'',
         js ''  \<newline>'',
         js ''  <!-- Title -->\<newline>'',
         js ''  <rect x="10" y="10" width="'',
         numberToString other (num_sub w (Finite 20)),
         js ''" height="60" fill="#FFFFFF" stroke="#333" stroke-width="2" rx="10"/>\<newline>'',
         js ''  <text x="'',
         numberToString other (num_div w (Finite 2)),
         js ''" y="45" font-size="28" font-family="Arial, sans-serif" \<newline>'']
       @ js ''  font-weight="bold" text-anchor="middle" '')
     @ (js ''fill="#333">\<newline>  '' @ circuitName @ js ''\<newline>  </text>'')
     @ (js ''\<newline>'' @ concat
        [js ''  \<newline>'',
         js ''  <!-- Components Layer -->\<newline>'',
         js ''  <g id="components">\<newline>'',
         js ''  ''])\<close>
    by (simp add: svgHeader_def js_def)
  then show ?thesis
    by (simp only: includes_str_append)
qed

lemma assembleFinalSVG_title_verbatim:
  \<open>includes_str (assembleFinalSVG other circuitName layout wires)
     (js ''fill="#333">\<newline>  '' @ circuitName @ js ''\<newline>  </text>'')\<close>
  unfolding assembleFinalSVG_eq
  by (rule includes_str_appendI) (rule svgHeader_title)

lemma svgHeader_background:
  \<open>includes_str (svgHeader other w h circuitName)
     (js ''<rect width="100%" height="100%" fill="#FAFAFA"/>'')\<close>
  unfolding svgHeader_def
  by (rule includes_str_concat
        [where x = \<open>js ''  <rect width="100%" height="100%" fill="#FAFAFA"/>\<newline>''\<close>])
     (simp_all add: js_def)

lemma svgFooter_legend:
  \<open>includes_str (svgFooter other w h) (js ''<text x="0" y="5" font-size="14" font-weight="bold" fill="#333">Wire Color Guide:</text>'')\<close>
  unfolding svgFooter_def
  by (rule includes_str_concat
        [where x = \<open>js ''    <text x="0" y="5" font-size="14" font-weight="bold" fill="#333">Wire Color Guide:</text>\<newline>''\<close>])
     (simp_all add: js_def)

lemma assembleFinalSVG_empty_parts:
  \<open>includes_str (assembleFinalSVG other circuitName [] [])
     (js ''<rect width="100%" height="100%" fill="#FAFAFA"/>'')
   \<and> includes_str (assembleFinalSVG other circuitName [] [])
     (js ''fill="#333">\<newline>  '' @ circuitName @ js ''\<newline>  </text>'')
   \<and> includes_str (assembleFinalSVG other circuitName [] [])
     (js ''<text x="0" y="5" font-size="14" font-weight="bold" fill="#333">Wire Color Guide:</text>'')\<close>
proof (intro conjI)
  show \<open>includes_str (assembleFinalSVG other circuitName [] [])
     (js ''<rect width="100%" height="100%" fill="#FAFAFA"/>'')\<close>
    unfolding assembleFinalSVG_empty
    by (rule includes_str_appendI) (rule svgHeader_background)
  show \<open>includes_str (assembleFinalSVG other circuitName [] [])
     (js ''fill="#333">\<newline>  '' @ circuitName @ js ''\<newline>  </text>'')\<close>
    by (rule assembleFinalSVG_title_verbatim)
  show \<open>includes_str (assembleFinalSVG other circuitName [] [])
     (js ''<text x="0" y="5" font-size="14" font-weight="bold" fill="#333">Wire Color Guide:</text>'')\<close>
    unfolding assembleFinalSVG_empty
    by (intro includes_str_prependI) (rule svgFooter_legend)
qed

text \<open>
  C6: the component names and the connection labels are escaped (\<open>escapeMarkup\<close> in
  \<open>embedComponentSVG\<close> and \<open>drawWire\<close>, \<open>escapeMarkup_safe\<close>), but the circuit name
  is written into the title as it is: for the circuit name \<open>R&D\<close> the document has the
  text \<open>R&D\<close> with its bare ampersand, for every layout and every list of wires.
\<close>

theorem assembleFinalSVG_title_not_escaped:
  \<open>includes_str (assembleFinalSVG other (js ''R&D'') layout wires)
     (js ''fill="#333">\<newline>  R&D\<newline>  </text>'')
   \<and> \<not> markupSafe (js ''R&D'')\<close>
  using assembleFinalSVG_title_verbatim [of other "js ''R&D''" layout wires]
    title_not_markupSafe
  by (simp add: js_def)

text \<open>
  C8: with an empty layout nothing resolves and nothing is raised
  (\<open>parseConnections_empty_layout\<close>), and \<open>assembleFinalSVG\<close> returns the header with
  background and title, the empty layers and the footer with the legend on a canvas of
  200 by 250 (\<open>assembleFinalSVG_empty\<close>). The title is the circuit name as it is: for
  the circuit name \<open>R&D\<close> the text of the title element is \<open>R&D\<close>, and a bare
  ampersand is not well-formed character data.
\<close>

theorem assembleFinalSVG_empty_title_raw:
  \<open>assembleFinalSVG other (js ''R&D'') [] [] =
     svgHeader other (Finite 200) (Finite 250) (js ''R&D'') @ wiresLayerOpen @ pinLabelsOpen @ svgFooter other (Finite 200) (Finite 250)
   \<and> includes_str (svgHeader other (Finite 200) (Finite 250) (js ''R&D'')) (js ''  R&D\<newline>  </text>'')\<close>
  by (simp add: assembleFinalSVG_empty svgHeader_def round64_int numberToString_200
      numberToString_ints js_def)



section \<open>The canvas of an artwork beyond the range\<close>

text \<open>An artwork whose \<open>width\<close> attribute, 2 followed by 308 zeros, is beyond the range
  of the finite numbers.\<close>

lemma viewBoxMatch_replicate: "viewBoxMatch (replicate n 48 @ rest) = viewBoxMatch rest"
  by (induction n) (auto simp: viewBoxAt_def js_def)

lemma attrMatch_replicate:
  "attrMatch (k # key) (replicate n d @ rest) = attrMatch (k # key) rest" if "k \<noteq> d"
  using that by (induction n) (auto simp: attrAt_def)

lemma takeWhile_replicate:
  "takeWhile isDigit (replicate n 48 @ rest) = replicate n 48 @ takeWhile isDigit rest"
  by (induction n) (simp_all add: isDigit_def)

lemma decimalValue_replicate: "decimalValue (replicate n 48) acc = acc * 10 ^ n"
  by (induction n arbitrary: acc) simp_all

lemma round64_overlong: "round64 (real (2 * 10 ^ 308)) = PosInf"
  by (rule round64_overflow) (simp add: huge_def)

lemma svgDimensions_overlong:
  "svgDimensions other (js ''<svg width=\"2'' @ replicate 308 48 @ js ''\" height=\"100\">'')
     = (PosInf, Finite 100)"
proof -
  let ?s = "js ''<svg width=\"2'' @ replicate 308 48 @ js ''\" height=\"100\">''"
  have vb: "viewBoxMatch ?s = None"
    by (simp add: js_def viewBoxAt_def viewBoxMatch_replicate)
  have w: "attrMatch (js ''width='') ?s = Some (50 # replicate 308 48)"
    by (simp add: js_def attrAt_def isQuote_def takeWhile_replicate)
      (simp add: isDigit_def)
  have h: "attrMatch (js ''height='') ?s = Some (js ''100'')"
    by (simp add: js_def attrAt_def isQuote_def isDigit_def attrMatch_replicate)
  have pw: "parseFloat other (50 # replicate 308 48) = PosInf"
    using round64_overlong
    by (simp add: parseFloat_def isDigit_def list_all_iff decimalValue_replicate)
  have ph: "parseFloat other (js ''100'') = Finite 100"
    by (simp add: parseFloat_def js_def isDigit_def round64_int)
  show ?thesis
    unfolding svgDimensions_def vb w h
    by (simp add: pw ph orDefault_def)
qed

lemma parseSVG_overlong:
  "c_width (parseSVG lower other (js ''LED'')
      (js ''<svg width=\"2'' @ replicate 308 48 @ js ''\" height=\"100\">'')) = NaN"
  "c_height (parseSVG lower other (js ''LED'')
      (js ''<svg width=\"2'' @ replicate 308 48 @ js ''\" height=\"100\">'')) = Finite 0"
  unfolding parseSVG_def svgDimensions_overlong
  by (simp_all add: Let_def MAX_WIDTH_def MAX_HEIGHT_def Math_min_def round64_int)

lemma layout_LED:
  "layoutComponents lower [(js ''LED'', component)] [js ''LED''] =
     [(js ''LED'',
       \<lparr>l_component = component, l_x = Finite 150, l_y = Finite 200,
        l_absolutePins = calculateAbsolutePins (c_pins component) (Finite 150) (Finite 200)\<rparr>)]"
proof -
  have arduino: "List.find (\<lambda>c. includes_str (toLowerCase lower c) (js ''arduino'')) [js ''LED'']
      = None"
    by (simp add: js_def toLowerCase_def toLowerCase_unit_def)
  show ?thesis
    unfolding layoutComponents_def arduino
    by (simp add: Let_def Map_get_def Map_set_def spacingY_def round64_int)
qed

lemma canvas_overlong:
  assumes "c_width component = NaN" "c_height component = Finite 0"
  shows "canvasWidth_of (layoutComponents lower [(js ''LED'', component)] [js ''LED'']) = NaN"
    and "canvasHeight_of (layoutComponents lower [(js ''LED'', component)] [js ''LED''])
      = Finite 450"
  unfolding layout_LED
  by (simp_all add: canvasWidth_of_def canvasHeight_of_def assms Math_max_def Math_min_def
      round64_int)

lemma startsWith_header:
  \<open>startsWith (svgHeader other NaN (Finite 450) circuitName @ rest)
     (js ''<?xml version="1.0" encoding="UTF-8"?>\<newline><svg width="NaN" height="450" '')\<close>
  by (simp add: svgHeader_def numberToString_def digitsOf.simps js_def)

text \<open>
  C7: the canvas is the largest right edge plus 200 and the largest bottom edge plus 250,
  cut off at 2000 and 1500 by \<open>Math.min\<close>, and where no edge is NaN it is within these
  bounds (\<open>canvas_bounded\<close>, \<open>foldl_Math_max_upper\<close>). But an edge can be NaN: a
  \<open>width\<close> attribute of 2 followed by 308 zeros is read as \<open>Infinity\<close>, the scale is 0,
  the scaled width is NaN, and NaN passes through \<open>Math.max\<close> and \<open>Math.min\<close>
  (\<open>canvasWidth_of_NaN\<close>). For the layout of this one component the canvas width is not
  at most 2000, and the document starts with an \<open>svg\<close> element of width \<open>NaN\<close>.
\<close>

theorem canvasWidth_of_overlong:
  \<open>canvasWidth_of
     (layoutComponents lower
        [(js ''LED'', parseSVG lower other (js ''LED'')
            (js ''<svg width="2'' @ replicate 308 48 @ js ''" height="100">''))]
        [js ''LED'']) = NaN
   \<and> \<not> num_le
       (canvasWidth_of
          (layoutComponents lower
             [(js ''LED'', parseSVG lower other (js ''LED'')
                 (js ''<svg width="2'' @ replicate 308 48 @ js ''" height="100">''))]
             [js ''LED'']))
       (Finite 2000)
   \<and> startsWith
       (assembleFinalSVG other' circuitName
          (layoutComponents lower
             [(js ''LED'', parseSVG lower other (js ''LED'')
                 (js ''<svg width="2'' @ replicate 308 48 @ js ''" height="100">''))]
             [js ''LED''])
          wires)
       (js ''<?xml version="1.0" encoding="UTF-8"?>\<newline><svg width="NaN" height="450" '')\<close>
proof -
  note c = canvas_overlong [OF parseSVG_overlong [of lower other]]
  show ?thesis
    unfolding assembleFinalSVG_eq c
    by (intro conjI) (simp_all only: refl startsWith_header num_le.simps not_False_eq_True)
qed

end
